theory Spec2Isabelle
  imports Complex_Main
begin

section \<open>Strings of the JavaScript runtime\<close>

text \<open>
  A JavaScript string is a sequence of UTF-16 code units. A code unit is modelled by its
  number; ASCII text is written through \<open>ascii\<close>, everything beyond ASCII by the
  code units themselves.
\<close>

type_synonym code_unit = nat
type_synonym jsstring = "code_unit list"

definition ascii :: "string \<Rightarrow> jsstring" where
  "ascii s = map of_char s"

text \<open>\<open>String.prototype.trim\<close>: the WhiteSpace and LineTerminator code points.\<close>

definition is_white_space :: "code_unit \<Rightarrow> bool" where
  "is_white_space c \<longleftrightarrow>
     c = 9 \<or> c = 10 \<or> c = 11 \<or> c = 12 \<or> c = 13 \<or> c = 32 \<or> c = 160 \<or> c = 5760 \<or>
     (8192 \<le> c \<and> c \<le> 8202) \<or> c = 8232 \<or> c = 8233 \<or> c = 8239 \<or> c = 8287 \<or>
     c = 12288 \<or> c = 65279"

definition trim_start :: "jsstring \<Rightarrow> jsstring" where
  "trim_start s = dropWhile is_white_space s"

definition trim :: "jsstring \<Rightarrow> jsstring" where
  "trim s = rev (dropWhile is_white_space (rev (dropWhile is_white_space s)))"

text \<open>\<open>s.split(',')\<close>: one entry more than there are commas; the empty string gives
  one empty entry.\<close>

definition comma :: code_unit where
  "comma = 44"

fun split_comma :: "jsstring \<Rightarrow> jsstring list" where
  "split_comma [] = [[]]"
| "split_comma (c # cs) =
     (if c = comma then [] # split_comma cs
      else (case split_comma cs of
              [] \<Rightarrow> [[c]]
            | w # ws \<Rightarrow> (c # w) # ws))"

text \<open>\<open>parts.join(sep)\<close>.\<close>

fun join :: "jsstring \<Rightarrow> jsstring list \<Rightarrow> jsstring" where
  "join sep [] = []"
| "join sep [p] = p"
| "join sep (p # q # ps) = p @ sep @ join sep (q # ps)"

text \<open>\<open>s.padStart(n, '0')\<close>.\<close>

definition padStart :: "nat \<Rightarrow> jsstring \<Rightarrow> jsstring" where
  "padStart n s = replicate (n - length s) 48 @ s"

text \<open>Decimal digits, and the decimal text of an integer (\<open>String(n)\<close> and
  \<open>`${n}`\<close> for an integer below \<open>10\<^sup>2\<^sup>1\<close> in size).\<close>

definition is_digit :: "code_unit \<Rightarrow> bool" where
  "is_digit c \<longleftrightarrow> 48 \<le> c \<and> c \<le> 57"

definition digits_value :: "jsstring \<Rightarrow> nat" where
  "digits_value ds = foldl (\<lambda>acc c. 10 * acc + (c - 48)) 0 ds"

fun show_nat :: "nat \<Rightarrow> jsstring" where
  "show_nat n = (if n < 10 then [48 + n] else show_nat (n div 10) @ [48 + n mod 10])"

declare show_nat.simps [simp del]

definition show_int :: "int \<Rightarrow> jsstring" where
  "show_int i = (if i < 0 then 45 # show_nat (nat (- i)) else show_nat (nat i))"

text \<open>A number that may be \<open>NaN\<close> (\<open>None\<close>), as a template literal prints it.\<close>

fun show_number :: "int option \<Rightarrow> jsstring" where
  "show_number None = ascii ''NaN''"
| "show_number (Some i) = show_int i"

text \<open>
  \<open>encodeURIComponent\<close>: the unreserved characters stay, every other code point is
  written as the percent-escaped bytes of its UTF-8 form; a surrogate without its partner
  raises URIError (\<open>None\<close>).
\<close>

definition is_unreserved :: "code_unit \<Rightarrow> bool" where
  "is_unreserved c \<longleftrightarrow>
     (65 \<le> c \<and> c \<le> 90) \<or> (97 \<le> c \<and> c \<le> 122) \<or> (48 \<le> c \<and> c \<le> 57) \<or>
     c = 45 \<or> c = 95 \<or> c = 46 \<or> c = 33 \<or> c = 126 \<or> c = 42 \<or> c = 39 \<or> c = 40 \<or> c = 41"

definition hex_digit :: "nat \<Rightarrow> code_unit" where
  "hex_digit n = (if n < 10 then 48 + n else 55 + n)"

definition percent_byte :: "nat \<Rightarrow> jsstring" where
  "percent_byte b = [37, hex_digit (b div 16), hex_digit (b mod 16)]"

definition utf8_bytes :: "nat \<Rightarrow> nat list" where
  "utf8_bytes cp =
     (if cp < 128 then [cp]
      else if cp < 2048 then [192 + cp div 64, 128 + cp mod 64]
      else if cp < 65536 then [224 + cp div 4096, 128 + (cp div 64) mod 64, 128 + cp mod 64]
      else [240 + cp div 262144, 128 + (cp div 4096) mod 64, 128 + (cp div 64) mod 64,
            128 + cp mod 64])"

definition is_lead_surrogate :: "code_unit \<Rightarrow> bool" where
  "is_lead_surrogate c \<longleftrightarrow> 55296 \<le> c \<and> c \<le> 56319"

definition is_trail_surrogate :: "code_unit \<Rightarrow> bool" where
  "is_trail_surrogate c \<longleftrightarrow> 56320 \<le> c \<and> c \<le> 57343"

fun encodeURIComponent :: "jsstring \<Rightarrow> jsstring option" where
  "encodeURIComponent [] = Some []"
| "encodeURIComponent (c # cs) =
     (if is_unreserved c then map_option ((#) c) (encodeURIComponent cs)
      else if is_trail_surrogate c then None
      else if is_lead_surrogate c then
        (case cs of
           [] \<Rightarrow> None
         | c' # cs' \<Rightarrow>
             if is_trail_surrogate c' then
               map_option
                 ((@) (concat (map percent_byte
                    (utf8_bytes ((c - 55296) * 1024 + (c' - 56320) + 65536)))))
                 (encodeURIComponent cs')
             else None)
      else map_option ((@) (concat (map percent_byte (utf8_bytes c)))) (encodeURIComponent cs))"

section \<open>Numbers\<close>

text \<open>
  A JavaScript number is an IEEE double. The model keeps the value a double denotes: a
  rational, an infinity or \<open>NaN\<close>. Rounding is not modelled, so the model and the runtime
  agree wherever every value on the way is a double, as are the integers below
  \<open>2\<^sup>5\<^sup>3\<close> and the sums of the amounts used below.
\<close>

datatype number = NaN | PosInf | NegInf | Fin rat

fun num_add :: "number \<Rightarrow> number \<Rightarrow> number" where
  "num_add (Fin a) (Fin b) = Fin (a + b)"
| "num_add NaN _ = NaN"
| "num_add _ NaN = NaN"
| "num_add PosInf NegInf = NaN"
| "num_add NegInf PosInf = NaN"
| "num_add PosInf _ = PosInf"
| "num_add _ PosInf = PosInf"
| "num_add NegInf _ = NegInf"
| "num_add _ NegInf = NegInf"

fun isNaN :: "number \<Rightarrow> bool" where
  "isNaN NaN = True"
| "isNaN _ = False"

text \<open>
  \<open>parseFloat\<close>: leading white space is skipped, then the longest prefix that is a
  decimal literal (sign, \<open>Infinity\<close> or digits with an optional fraction and exponent)
  gives the value; no such prefix gives \<open>NaN\<close>.
\<close>

definition split_sign :: "jsstring \<Rightarrow> bool \<times> jsstring" where
  "split_sign s =
     (case s of
        [] \<Rightarrow> (False, s)
      | c # r \<Rightarrow> if c = 45 then (True, r) else if c = 43 then (False, r) else (False, s))"

definition exponent_part :: "jsstring \<Rightarrow> int" where
  "exponent_part s =
     (case s of
        [] \<Rightarrow> 0
      | c # r \<Rightarrow>
          if c = 101 \<or> c = 69 then
            (let (neg, r') = split_sign r; ds = takeWhile is_digit r'
             in if ds = [] then 0
                else if neg then - int (digits_value ds) else int (digits_value ds))
          else 0)"

definition scale10 :: "rat \<Rightarrow> int \<Rightarrow> rat" where
  "scale10 m e = (if 0 \<le> e then m * 10 ^ nat e else m / 10 ^ nat (- e))"

definition parseFloat :: "jsstring \<Rightarrow> number" where
  "parseFloat input =
     (let (neg, s) = split_sign (trim_start input)
      in if take 8 s = ascii ''Infinity'' then (if neg then NegInf else PosInf)
         else
           (let ip = takeWhile is_digit s;
                r1 = dropWhile is_digit s;
                (fp, r2) = (case r1 of
                              [] \<Rightarrow> ([], [])
                            | c # r \<Rightarrow>
                                if c = 46 then (takeWhile is_digit r, dropWhile is_digit r)
                                else ([], r1))
            in if ip = [] \<and> fp = [] then NaN
               else
                 (let m = scale10 (of_nat (digits_value (ip @ fp))) (- int (length fp));
                      v = scale10 m (exponent_part r2)
                  in Fin (if neg then - v else v))))"

section \<open>Time values of the Date object\<close>

text \<open>
  A Date holds a time value: the milliseconds since 1970-01-01T00:00:00Z, or \<open>NaN\<close>
  (Invalid Date), here \<open>None\<close>. The calendar follows the definitions of the language
  standard (Day, TimeWithinDay, DayFromYear, YearFromTime, MonthFromTime, DateFromTime,
  MakeDay, MakeTime, MakeDate, TimeClip).
\<close>

type_synonym time_value = "int option"

definition msPerDay :: int where
  "msPerDay = 86400000"

definition Day :: "int \<Rightarrow> int" where
  "Day t = t div msPerDay"

definition TimeWithinDay :: "int \<Rightarrow> int" where
  "TimeWithinDay t = t mod msPerDay"

definition DaysInYear :: "int \<Rightarrow> int" where
  "DaysInYear y =
     (if y mod 4 \<noteq> 0 then 365 else if y mod 100 \<noteq> 0 then 366
      else if y mod 400 \<noteq> 0 then 365 else 366)"

definition DayFromYear :: "int \<Rightarrow> int" where
  "DayFromYear y =
     365 * (y - 1970) + (y - 1969) div 4 - (y - 1901) div 100 + (y - 1601) div 400"

text \<open>
  The year of a day number: the largest \<open>y\<close> with \<open>DayFromYear y \<le> d\<close>, found by
  counting whole cycles of 400, 100, 4 and 1 years from the first of January 1601.
\<close>

definition YearFromDay :: "int \<Rightarrow> int" where
  "YearFromDay d =
     (let n = d - DayFromYear 1601;
          n400 = n div 146097;
          r400 = n mod 146097;
          n100 = min 3 (r400 div 36524);
          r100 = r400 - n100 * 36524;
          n4 = r100 div 1461;
          r4 = r100 mod 1461;
          n1 = min 3 (r4 div 365)
      in 1601 + 400 * n400 + 100 * n100 + 4 * n4 + n1)"

definition YearFromTime :: "int \<Rightarrow> int" where
  "YearFromTime t = YearFromDay (Day t)"

definition InLeapYear :: "int \<Rightarrow> int" where
  "InLeapYear t = (if DaysInYear (YearFromTime t) = 366 then 1 else 0)"

definition DayWithinYear :: "int \<Rightarrow> int" where
  "DayWithinYear t = Day t - DayFromYear (YearFromTime t)"

definition MonthFromTime :: "int \<Rightarrow> int" where
  "MonthFromTime t =
     (let d = DayWithinYear t; leap = InLeapYear t
      in if d < 31 then 0
         else if d < 59 + leap then 1
         else if d < 90 + leap then 2
         else if d < 120 + leap then 3
         else if d < 151 + leap then 4
         else if d < 181 + leap then 5
         else if d < 212 + leap then 6
         else if d < 243 + leap then 7
         else if d < 273 + leap then 8
         else if d < 304 + leap then 9
         else if d < 334 + leap then 10
         else 11)"

definition DateFromTime :: "int \<Rightarrow> int" where
  "DateFromTime t =
     (let d = DayWithinYear t; leap = InLeapYear t; m = MonthFromTime t
      in if m = 0 then d + 1
         else if m = 1 then d - 30
         else if m = 2 then d - 58 - leap
         else if m = 3 then d - 89 - leap
         else if m = 4 then d - 119 - leap
         else if m = 5 then d - 150 - leap
         else if m = 6 then d - 180 - leap
         else if m = 7 then d - 211 - leap
         else if m = 8 then d - 242 - leap
         else if m = 9 then d - 272 - leap
         else if m = 10 then d - 303 - leap
         else d - 333 - leap)"

definition HourFromTime :: "int \<Rightarrow> int" where
  "HourFromTime t = (t div 3600000) mod 24"

definition MinFromTime :: "int \<Rightarrow> int" where
  "MinFromTime t = (t div 60000) mod 60"

definition SecFromTime :: "int \<Rightarrow> int" where
  "SecFromTime t = (t div 1000) mod 60"

definition msFromTime :: "int \<Rightarrow> int" where
  "msFromTime t = t mod 1000"

text \<open>The days of a year before its month \<open>m\<close> (0 to 11).\<close>

definition DaysBeforeMonth :: "int \<Rightarrow> int \<Rightarrow> int" where
  "DaysBeforeMonth y m =
     [0, 31, 59, 90, 120, 151, 181, 212, 243, 273, 304, 334] ! nat m +
     (if 2 \<le> m \<and> DaysInYear y = 366 then 1 else 0)"

definition MakeDay :: "int \<Rightarrow> int \<Rightarrow> int \<Rightarrow> int" where
  "MakeDay year month date =
     (let ym = year + month div 12; mn = month mod 12
      in DayFromYear ym + DaysBeforeMonth ym mn + date - 1)"

definition MakeTime :: "int \<Rightarrow> int \<Rightarrow> int \<Rightarrow> int \<Rightarrow> int" where
  "MakeTime hour minute sec ms = hour * 3600000 + minute * 60000 + sec * 1000 + ms"

definition MakeDate :: "int \<Rightarrow> int \<Rightarrow> int" where
  "MakeDate day time = day * msPerDay + time"

definition TimeClip :: "int \<Rightarrow> time_value" where
  "TimeClip t = (if \<bar>t\<bar> > 8640000000000000 then None else Some t)"

text \<open>The methods of Date that the program calls.\<close>

definition getUTCFullYear :: "time_value \<Rightarrow> int option" where
  "getUTCFullYear d = map_option YearFromTime d"

definition getUTCMonth :: "time_value \<Rightarrow> int option" where
  "getUTCMonth d = map_option MonthFromTime d"

definition getUTCDate :: "time_value \<Rightarrow> int option" where
  "getUTCDate d = map_option DateFromTime d"

definition setTime :: "int option \<Rightarrow> time_value" where
  "setTime t = (case t of None \<Rightarrow> None | Some t' \<Rightarrow> TimeClip t')"

definition setUTCDate :: "time_value \<Rightarrow> int option \<Rightarrow> time_value" where
  "setUTCDate d date =
     (case (d, date) of
        (Some t, Some dt) \<Rightarrow>
          TimeClip (MakeDate (MakeDay (YearFromTime t) (MonthFromTime t) dt) (TimeWithinDay t))
      | _ \<Rightarrow> None)"

definition Date_UTC ::
  "int option \<Rightarrow> int option \<Rightarrow> int option \<Rightarrow> int \<Rightarrow> int \<Rightarrow> int \<Rightarrow> int \<Rightarrow> time_value" where
  "Date_UTC year month date hours minutes seconds ms =
     (case (year, month, date) of
        (Some y, Some m, Some dt) \<Rightarrow>
          (let yr = (if 0 \<le> y \<and> y \<le> 99 then 1900 + y else y)
           in TimeClip (MakeDate (MakeDay yr m dt) (MakeTime hours minutes seconds ms)))
      | _ \<Rightarrow> None)"

text \<open>\<open>toISOString\<close>: RangeError on an Invalid Date; the year has four digits from 0 to
  9999 and a sign with six digits otherwise.\<close>

definition iso_year :: "int \<Rightarrow> jsstring" where
  "iso_year y =
     (if 0 \<le> y \<and> y \<le> 9999 then padStart 4 (show_nat (nat y))
      else (if y < 0 then 45 else 43) # padStart 6 (show_nat (nat \<bar>y\<bar>)))"

definition pad_int :: "nat \<Rightarrow> int \<Rightarrow> jsstring" where
  "pad_int n i = padStart n (show_int i)"

text \<open>Thrown values: every \<open>throw new Error(msg)\<close> of the program is \<open>Error msg\<close>; the
  runtime's own exceptions keep their class.\<close>

datatype js_error =
    Error jsstring
  | TypeError
  | RangeError
  | URIError
  | SyntaxError

definition toISOString :: "time_value \<Rightarrow> js_error + jsstring" where
  "toISOString d =
     (case d of
        None \<Rightarrow> Inl RangeError
      | Some t \<Rightarrow>
          Inr (iso_year (YearFromTime t) @ ascii ''-'' @ pad_int 2 (MonthFromTime t + 1) @
               ascii ''-'' @ pad_int 2 (DateFromTime t) @ ascii ''T'' @
               pad_int 2 (HourFromTime t) @ ascii '':'' @ pad_int 2 (MinFromTime t) @
               ascii '':'' @ pad_int 2 (SecFromTime t) @ ascii ''.'' @
               pad_int 3 (msFromTime t) @ ascii ''Z''))"

text \<open>
  \<open>new Date(string)\<close> parses the string. The form that \<open>toISOString\<close> writes
  (\<open>YYYY-MM-DDTHH:mm:ss.sssZ\<close>, or a signed year of six digits), with every field in its
  range, is read here; what any other string gives is left to the runtime, and is the
  parameter \<open>other\<close>.
\<close>

definition parse_field :: "jsstring \<Rightarrow> int option" where
  "parse_field s = (if s \<noteq> [] \<and> list_all is_digit s then Some (int (digits_value s)) else None)"

definition DaysInMonth :: "int \<Rightarrow> int \<Rightarrow> int" where
  "DaysInMonth y m =
     (if m = 2 then (if DaysInYear y = 366 then 29 else 28)
      else if m = 4 \<or> m = 6 \<or> m = 9 \<or> m = 11 then 30 else 31)"

definition parse_iso_fields :: "int \<Rightarrow> jsstring \<Rightarrow> jsstring \<Rightarrow> time_value" where
  "parse_iso_fields sign ys s =
     (case (parse_field ys, parse_field (take 2 (drop 1 s)), parse_field (take 2 (drop 4 s)),
            parse_field (take 2 (drop 7 s)), parse_field (take 2 (drop 10 s)),
            parse_field (take 2 (drop 13 s)), parse_field (take 3 (drop 16 s))) of
        (Some y, Some mo, Some d, Some h, Some mi, Some sec, Some ms) \<Rightarrow>
          if s ! 0 = 45 \<and> s ! 3 = 45 \<and> s ! 6 = 84 \<and> s ! 9 = 58 \<and> s ! 12 = 58 \<and>
             s ! 15 = 46 \<and> s ! 19 = 90 \<and>
             1 \<le> mo \<and> mo \<le> 12 \<and> 1 \<le> d \<and> d \<le> DaysInMonth (sign * y) mo \<and>
             h \<le> 23 \<and> mi \<le> 59 \<and> sec \<le> 59 \<and> \<not> (sign = - 1 \<and> y = 0)
          then TimeClip (MakeDate (MakeDay (sign * y) (mo - 1) d) (MakeTime h mi sec ms))
          else None
      | _ \<Rightarrow> None)"

definition parse_iso :: "jsstring \<Rightarrow> time_value" where
  "parse_iso s =
     (case s of
        [] \<Rightarrow> None
      | c # r \<Rightarrow>
          if c = 43 \<or> c = 45 then
            (if length r = 26 then parse_iso_fields (if c = 45 then - 1 else 1) (take 6 r) (drop 6 r)
             else None)
          else if length s = 24 then parse_iso_fields 1 (take 4 s) (drop 4 s)
          else None)"

definition Date_parse :: "(jsstring \<Rightarrow> time_value) \<Rightarrow> jsstring \<Rightarrow> time_value" where
  "Date_parse other s = (case parse_iso s of Some t \<Rightarrow> Some t | None \<Rightarrow> other s)"

section \<open>Data model\<close>

datatype Store =
    ShopifyStore (domain: jsstring) (accessToken: jsstring)
  | MagentoStore (domain: jsstring) (accessToken: jsstring)

fun is_shopify :: "Store \<Rightarrow> bool" where
  "is_shopify (ShopifyStore _ _) = True"
| "is_shopify (MagentoStore _ _) = False"

record StoreMetrics =
  orderCount :: nat
  totalAmount :: number

record date_range =
  start :: jsstring
  end' :: jsstring

text \<open>An environment variable that is not set reads as \<open>undefined\<close>: \<open>None\<close>.\<close>

record Environment =
  SHOPIFY_DOMAINS :: "jsstring option"
  SHOPIFY_ACCESS_TOKENS :: "jsstring option"
  MAGENTO_DOMAINS :: "jsstring option"
  MAGENTO_ACCESS_TOKENS :: "jsstring option"
  ZOHO_CLIQ_API_ENDPOINT :: "jsstring option"
  ZOHO_CLIQ_WEBHOOK_TOKEN :: "jsstring option"
  ZOHO_CLIQ_BOTNAME :: "jsstring option"

text \<open>Truthiness of a string-or-undefined value: set and not empty.\<close>

fun truthy :: "jsstring option \<Rightarrow> bool" where
  "truthy None = False"
| "truthy (Some s) = (s \<noteq> [])"

fun string_of :: "jsstring option \<Rightarrow> jsstring" where
  "string_of None = []"
| "string_of (Some s) = s"

text \<open>A string-or-undefined value inside a template literal.\<close>

fun template :: "jsstring option \<Rightarrow> jsstring" where
  "template None = ascii ''undefined''"
| "template (Some s) = s"

text \<open>
  An object used as a dictionary: its own string keys in the order of their creation.
  Assigning to an existing key keeps the key's place. Assigning an object to the key
  \<open>__proto__\<close> replaces the prototype and creates no key.
\<close>

type_synonym 'v js_object = "(jsstring \<times> 'v) list"

definition proto_key :: jsstring where
  "proto_key = ascii ''__proto__''"

definition obj_set :: "'v js_object \<Rightarrow> jsstring \<Rightarrow> 'v \<Rightarrow> 'v js_object" where
  "obj_set obj key v =
     (if key = proto_key then obj
      else if key \<in> fst ` set obj then map (\<lambda>(k, v'). if k = key then (k, v) else (k, v')) obj
      else obj @ [(key, v)])"

text \<open>
  \<open>Object.entries\<close> and \<open>Object.values\<close> list the keys that are array indices (the
  decimal text of an integer below \<open>2\<^sup>3\<^sup>2 - 1\<close>) first, in ascending order, then the
  other keys in the order of their creation.
\<close>

definition is_array_index :: "jsstring \<Rightarrow> bool" where
  "is_array_index k \<longleftrightarrow>
     k \<noteq> [] \<and> list_all is_digit k \<and> (k = [48] \<or> hd k \<noteq> 48) \<and> digits_value k < 4294967295"

definition Object_entries :: "'v js_object \<Rightarrow> (jsstring \<times> 'v) list" where
  "Object_entries obj =
     sort_key (\<lambda>(k, v). digits_value k) (filter (\<lambda>(k, v). is_array_index k) obj) @
     filter (\<lambda>(k, v). \<not> is_array_index k) obj"

definition Object_values :: "'v js_object \<Rightarrow> 'v list" where
  "Object_values obj = map snd (Object_entries obj)"

section \<open>Date range calculator\<close>

text \<open>
  \<open>getYesterdayPST\<close>, from the current instant \<open>now\<close> of \<open>new Date()\<close>. Each
  \<open>toISOString\<close> that the function logs or returns can raise; the \<open>catch\<close> block
  raises the same error again. The lines that only print are left out.
\<close>

definition getYesterdayPST :: "int \<Rightarrow> js_error + date_range" where
  "getYesterdayPST now =
     (let currentPST = setTime (Some (now + (- 8 * 60 * 60 * 1000)))
      in case toISOString currentPST of
           Inl e \<Rightarrow> Inl e
         | Inr _ \<Rightarrow>
             (let yesterdayPST =
                    setUTCDate currentPST (map_option (\<lambda>d. d - 1) (getUTCDate currentPST))
              in case toISOString yesterdayPST of
                   Inl e \<Rightarrow> Inl e
                 | Inr _ \<Rightarrow>
                     (let year = getUTCFullYear yesterdayPST;
                          month = getUTCMonth yesterdayPST;
                          day = getUTCDate yesterdayPST;
                          startPST = Date_UTC year month day 8 0 0 0;
                          endPST = Date_UTC year month (map_option (\<lambda>d. d + 1) day) 7 59 59 999
                      in case toISOString startPST of
                           Inl e \<Rightarrow> Inl e
                         | Inr s \<Rightarrow>
                             (case toISOString endPST of
                                Inl e \<Rightarrow> Inl e
                              | Inr e \<Rightarrow> Inr \<lparr>start = s, end' = e\<rparr>))))"

section \<open>Configuration loader\<close>

definition InvalidConfiguration :: js_error where
  "InvalidConfiguration = Error (ascii ''Number of domains and access tokens must match'')"

definition InvalidMagentoConfiguration :: js_error where
  "InvalidMagentoConfiguration =
     Error (ascii ''Number of Magento domains and access tokens must match'')"

text \<open>The first \<open>if\<close> block of \<open>getStoresFromEnv\<close>: the Shopify descriptors pushed.\<close>

definition shopifyStoresFromEnv :: "Environment \<Rightarrow> js_error + Store list" where
  "shopifyStoresFromEnv env =
     (if truthy (SHOPIFY_DOMAINS env) \<and> truthy (SHOPIFY_ACCESS_TOKENS env) then
        (let shopifyDomains = map trim (split_comma (string_of (SHOPIFY_DOMAINS env)));
             shopifyTokens = map trim (split_comma (string_of (SHOPIFY_ACCESS_TOKENS env)))
         in if length shopifyDomains \<noteq> length shopifyTokens then Inl InvalidConfiguration
            else Inr (map (\<lambda>index. ShopifyStore (shopifyDomains ! index) (shopifyTokens ! index))
                        [0 ..< length shopifyDomains]))
      else Inr [])"

text \<open>The second \<open>if\<close> block: one Magento descriptor from the two whole values.\<close>

definition magentoStoresFromEnv :: "Environment \<Rightarrow> js_error + Store list" where
  "magentoStoresFromEnv env =
     (if truthy (MAGENTO_DOMAINS env) \<and> truthy (MAGENTO_ACCESS_TOKENS env) then
        (let magentoDomains = [string_of (MAGENTO_DOMAINS env)];
             magentoTokens = [string_of (MAGENTO_ACCESS_TOKENS env)]
         in if length magentoDomains \<noteq> length magentoTokens then Inl InvalidMagentoConfiguration
            else Inr (map (\<lambda>index. MagentoStore (magentoDomains ! index) (magentoTokens ! index))
                        [0 ..< length magentoDomains]))
      else Inr [])"

definition getStoresFromEnv :: "Environment \<Rightarrow> js_error + Store list" where
  "getStoresFromEnv env =
     (case shopifyStoresFromEnv env of
        Inl e \<Rightarrow> Inl e
      | Inr shopify \<Rightarrow>
          (case magentoStoresFromEnv env of
             Inl e \<Rightarrow> Inl e
           | Inr magento \<Rightarrow> Inr (shopify @ magento)))"

text \<open>An environment with no variable set, to build examples from.\<close>

definition unset_env :: Environment where
  "unset_env = \<lparr>SHOPIFY_DOMAINS = None, SHOPIFY_ACCESS_TOKENS = None, MAGENTO_DOMAINS = None,
     MAGENTO_ACCESS_TOKENS = None, ZOHO_CLIQ_API_ENDPOINT = None, ZOHO_CLIQ_WEBHOOK_TOKEN = None,
     ZOHO_CLIQ_BOTNAME = None\<rparr>"

section \<open>The network\<close>

text \<open>
  A request as \<open>fetch\<close> receives it; a JSON body is kept as the value that
  \<open>JSON.stringify\<close> serialises. A response is a rejection of \<open>fetch\<close> or a status
  with the body's text and, where the text is JSON, the parsed value. A server answers
  the \<open>n\<close>-th request of one store's conversation (counted from 0).
\<close>

datatype request_body =
    NoBody
  | GraphQLBody jsstring jsstring "jsstring option"
  | MessageBody jsstring

record http_request =
  http_method :: jsstring
  url :: jsstring
  headers :: "(jsstring \<times> jsstring) list"
  body :: request_body

datatype 'b http_response =
    FetchFailed js_error
  | Response bool jsstring jsstring "'b option"

type_synonym 'b server = "nat \<Rightarrow> http_request \<Rightarrow> 'b http_response"

section \<open>Shopify order fetcher\<close>

definition ORDERS_QUERY :: jsstring where
  "ORDERS_QUERY = join [10]
     [ascii ''query getOrders($query: String!, $cursor: String) {'',
      [9] @ ascii ''orders(first: 250, query: $query, after: $cursor) {'',
      [9] @ ascii ''  edges {'',
      [9, 9] @ ascii ''node {'',
      [9, 9] @ ascii ''  id'',
      [9, 9] @ ascii ''  totalPriceSet {'',
      [9, 9, 9] @ ascii ''shopMoney {'',
      [9, 9, 9] @ ascii ''  amount'',
      [9, 9, 9] @ ascii ''  currencyCode'',
      [9, 9, 9] @ ascii ''}'',
      [9, 9] @ ascii ''  }'',
      [9, 9] @ ascii ''}'',
      [9] @ ascii ''  }'',
      [9] @ ascii ''  pageInfo {'',
      [9, 9] @ ascii ''hasNextPage'',
      [9, 9] @ ascii ''endCursor'',
      [9] @ ascii ''  }'',
      [9] @ ascii ''}'',
      ascii ''  }'']"

text \<open>The page of orders that the query asks for; an edge carries the fields of its
  node.\<close>

record order_edge =
  node_id :: jsstring
  amount :: jsstring
  currencyCode :: jsstring

record page_info =
  hasNextPage :: bool
  endCursor :: "jsstring option"

record orders_page =
  edges :: "order_edge list"
  pageInfo :: page_info

text \<open>The JSON of a Shopify response: an \<open>errors\<close> field (serialised), the page under
  \<open>data.orders\<close>, or any other shape, which the program cannot read (TypeError).\<close>

datatype shopify_body =
    GraphQLErrors jsstring
  | OrdersData orders_page
  | OtherShape

definition shopify_request :: "Store \<Rightarrow> jsstring \<Rightarrow> jsstring option \<Rightarrow> http_request" where
  "shopify_request store query cursor =
     \<lparr>http_method = ascii ''POST'',
      url = ascii ''https://'' @ domain store @
            ascii ''.myshopify.com/admin/api/2024-01/graphql.json'',
      headers = [(ascii ''X-Shopify-Access-Token'', accessToken store),
                 (ascii ''Content-Type'', ascii ''application/json'')],
      body = GraphQLBody ORDERS_QUERY query cursor\<rparr>"

definition RequestFailed :: "jsstring \<Rightarrow> jsstring \<Rightarrow> js_error" where
  "RequestFailed name statusText =
     Error (ascii ''Failed to fetch orders from '' @ name @ ascii '': '' @ statusText)"

definition GraphQLError :: "jsstring \<Rightarrow> jsstring \<Rightarrow> js_error" where
  "GraphQLError name payload =
     Error (ascii ''GraphQL errors for '' @ name @ ascii '': '' @ payload)"

definition fetchShopifyOrdersPage ::
  "shopify_body server \<Rightarrow> nat \<Rightarrow> Store \<Rightarrow> jsstring \<Rightarrow> jsstring option \<Rightarrow>
     js_error + orders_page" where
  "fetchShopifyOrdersPage srv n store query cursor =
     (case srv n (shopify_request store query cursor) of
        FetchFailed e \<Rightarrow> Inl e
      | Response ok statusText text json \<Rightarrow>
          if \<not> ok then Inl (RequestFailed (domain store) statusText)
          else (case json of
                  None \<Rightarrow> Inl SyntaxError
                | Some (GraphQLErrors payload) \<Rightarrow> Inl (GraphQLError (domain store) payload)
                | Some (OrdersData orders) \<Rightarrow> Inr orders
                | Some OtherShape \<Rightarrow> Inl TypeError))"

definition MAX_PAGES :: nat where
  "MAX_PAGES = 20"

definition shopify_query :: "date_range \<Rightarrow> jsstring" where
  "shopify_query dateRange =
     ascii ''created_at:>='' @ [39] @ start dateRange @ [39] @
     ascii '' AND created_at:<='' @ [39] @ end' dateRange @ [39] @
     ascii '' AND risk_level:LOW OR risk_level:MEDIUM OR risk_level:non''"

text \<open>
  The \<open>while\<close> loop of \<open>fetchShopifyOrders\<close>. Its state is \<open>hasNextPage\<close>,
  \<open>cursor\<close>, \<open>allOrders\<close> and \<open>pageCount\<close>; \<open>reqs\<close> collects the requests sent.
  The result is the requests sent and the error raised or the orders and page count at
  the loop's exit.
\<close>

function shopify_pages ::
  "shopify_body server \<Rightarrow> Store \<Rightarrow> jsstring \<Rightarrow> bool \<Rightarrow> jsstring option \<Rightarrow>
     order_edge list \<Rightarrow> nat \<Rightarrow> http_request list \<Rightarrow>
     http_request list \<times> (js_error + order_edge list \<times> nat)" where
  "shopify_pages srv store query hasNext cursor allOrders pageCount reqs =
     (if hasNext \<and> pageCount < MAX_PAGES then
        (case fetchShopifyOrdersPage srv pageCount store query cursor of
           Inl e \<Rightarrow> (reqs @ [shopify_request store query cursor], Inl e)
         | Inr pageData \<Rightarrow>
             shopify_pages srv store query (hasNextPage (pageInfo pageData))
               (endCursor (pageInfo pageData)) (allOrders @ edges pageData) (pageCount + 1)
               (reqs @ [shopify_request store query cursor]))
      else (reqs, Inr (allOrders, pageCount)))"
  by pat_completeness auto
termination
  by (relation "measure (\<lambda>(srv, store, query, hasNext, cursor, allOrders, pageCount, reqs).
        MAX_PAGES - pageCount)") auto

declare shopify_pages.simps [simp del]

definition shopify_total :: "order_edge list \<Rightarrow> number" where
  "shopify_total allOrders =
     foldl (\<lambda>sum edge. num_add sum (parseFloat (amount edge))) (Fin 0) allOrders"

definition fetchShopifyOrders ::
  "shopify_body server \<Rightarrow> Store \<Rightarrow> date_range \<Rightarrow>
     http_request list \<times> (js_error + StoreMetrics)" where
  "fetchShopifyOrders srv store dateRange =
     (case shopify_pages srv store (shopify_query dateRange) True None [] 0 [] of
        (reqs, Inl e) \<Rightarrow> (reqs, Inl e)
      | (reqs, Inr (allOrders, pageCount)) \<Rightarrow>
          (reqs, Inr \<lparr>orderCount = length allOrders, totalAmount = shopify_total allOrders\<rparr>))"

section \<open>Magento order fetcher\<close>

text \<open>\<open>formatDate\<close>, the local function of \<open>fetchMagentoOrdersPage\<close>.\<close>

definition formatDate :: "(jsstring \<Rightarrow> time_value) \<Rightarrow> jsstring \<Rightarrow> bool \<Rightarrow> jsstring" where
  "formatDate other date isEndDate =
     (let d = Date_parse other date;
          year = getUTCFullYear d;
          month = padStart 2 (show_number (map_option (\<lambda>m. m + 1) (getUTCMonth d)));
          day = padStart 2 (show_number (getUTCDate d));
          time = (if isEndDate then ascii ''23:59:59'' else ascii ''00:00:00'')
      in show_number year @ ascii ''-'' @ month @ ascii ''-'' @ day @ ascii '' '' @ time)"

definition searchCriteria ::
  "(jsstring \<Rightarrow> time_value) \<Rightarrow> date_range \<Rightarrow> nat \<Rightarrow> (jsstring \<times> jsstring) list" where
  "searchCriteria other dateRange page =
     (let startDate = formatDate other (start dateRange) False;
          endDate = formatDate other (start dateRange) True
      in [(ascii ''searchCriteria[filterGroups][0][filters][0][field]'', ascii ''created_at''),
          (ascii ''searchCriteria[filterGroups][0][filters][0][value]'', startDate),
          (ascii ''searchCriteria[filterGroups][0][filters][0][condition_type]'', ascii ''gteq''),
          (ascii ''searchCriteria[filterGroups][1][filters][0][field]'', ascii ''created_at''),
          (ascii ''searchCriteria[filterGroups][1][filters][0][value]'', endDate),
          (ascii ''searchCriteria[filterGroups][1][filters][0][condition_type]'', ascii ''lteq''),
          (ascii ''searchCriteria[sortOrders][0][field]'', ascii ''created_at''),
          (ascii ''searchCriteria[sortOrders][0][direction]'', ascii ''DESC''),
          (ascii ''searchCriteria[currentPage]'', show_nat page),
          (ascii ''searchCriteria[pageSize]'', ascii ''100'')])"

text \<open>The query string: every key and value through \<open>encodeURIComponent\<close>, which
  raises URIError on a lone surrogate.\<close>

fun encode_entries :: "(jsstring \<times> jsstring) list \<Rightarrow> jsstring list option" where
  "encode_entries [] = Some []"
| "encode_entries ((key, v) # rest) =
     (case (encodeURIComponent key, encodeURIComponent v, encode_entries rest) of
        (Some k', Some v', Some rest') \<Rightarrow> Some ((k' @ ascii ''='' @ v') # rest')
      | _ \<Rightarrow> None)"

definition magento_request :: "Store \<Rightarrow> jsstring \<Rightarrow> http_request" where
  "magento_request store queryString =
     \<lparr>http_method = ascii ''GET'',
      url = ascii ''https://'' @ domain store @ ascii ''/rest/V1/orders?'' @ queryString,
      headers = [(ascii ''Authorization'', ascii ''Bearer '' @ accessToken store),
                 (ascii ''Content-Type'', ascii ''application/json'')],
      body = NoBody\<rparr>"

text \<open>A field of an order as JSON gives it, and the order list of a Magento response.\<close>

datatype json_prim = JAbsent | JNull | JBool bool | JNum rat | JStr jsstring

record magento_order =
  created_at :: json_prim
  grand_total :: json_prim

record magento_page =
  items :: "magento_order list option"
  total_count :: "nat option"

datatype magento_body =
    OrderList magento_page
  | JsonNull

definition MagentoRequestFailed :: "jsstring \<Rightarrow> jsstring \<Rightarrow> jsstring \<Rightarrow> js_error" where
  "MagentoRequestFailed name statusText responseText =
     Error (ascii ''Failed to fetch Magento orders from '' @ name @ ascii '': '' @ statusText @
            ascii ''. Response: '' @ responseText)"

text \<open>\<open>fetchMagentoOrdersPage\<close>: the requests sent (none when the query string cannot
  be built) and the page or the error. Page \<open>page\<close> is request \<open>page - 1\<close> of the
  conversation.\<close>

definition fetchMagentoOrdersPage ::
  "(jsstring \<Rightarrow> time_value) \<Rightarrow> magento_body server \<Rightarrow> Store \<Rightarrow> date_range \<Rightarrow> nat \<Rightarrow>
     http_request list \<times> (js_error + magento_page)" where
  "fetchMagentoOrdersPage other srv store dateRange page =
     (case encode_entries (searchCriteria other dateRange page) of
        None \<Rightarrow> ([], Inl URIError)
      | Some parts \<Rightarrow>
          (let req = magento_request store (join (ascii ''&'') parts)
           in ([req],
               case srv (page - 1) req of
                 FetchFailed e \<Rightarrow> Inl e
               | Response ok statusText responseText json \<Rightarrow>
                   if \<not> ok then Inl (MagentoRequestFailed (domain store) statusText responseText)
                   else (case json of
                           None \<Rightarrow> Inl SyntaxError
                         | Some JsonNull \<Rightarrow> Inl TypeError
                         | Some (OrderList data) \<Rightarrow> Inr data))))"

text \<open>The \<open>for\<close> loop over the pages from 2 to \<open>totalPages\<close>.\<close>

fun magento_pages ::
  "(jsstring \<Rightarrow> time_value) \<Rightarrow> magento_body server \<Rightarrow> Store \<Rightarrow> date_range \<Rightarrow> nat list \<Rightarrow>
     magento_order list \<Rightarrow> http_request list \<Rightarrow>
     http_request list \<times> (js_error + magento_order list)" where
  "magento_pages other srv store dateRange [] allOrders reqs = (reqs, Inr allOrders)"
| "magento_pages other srv store dateRange (page # pages) allOrders reqs =
     (case fetchMagentoOrdersPage other srv store dateRange page of
        (sent, Inl e) \<Rightarrow> (reqs @ sent, Inl e)
      | (sent, Inr pageData) \<Rightarrow>
          magento_pages other srv store dateRange pages
            (case items pageData of None \<Rightarrow> allOrders | Some new_items \<Rightarrow> allOrders @ new_items)
            (reqs @ sent))"

text \<open>\<open>parseFloat(order.grand_total || '0')\<close>: a falsy field reads as \<open>'0'\<close>; any
  other is turned into its text and parsed (the text of a number reads back as that
  number).\<close>

fun falsy :: "json_prim \<Rightarrow> bool" where
  "falsy JAbsent = True"
| "falsy JNull = True"
| "falsy (JBool b) = (\<not> b)"
| "falsy (JNum r) = (r = 0)"
| "falsy (JStr s) = (s = [])"

fun parseFloat_of :: "json_prim \<Rightarrow> number" where
  "parseFloat_of (JStr s) = parseFloat s"
| "parseFloat_of (JNum r) = Fin r"
| "parseFloat_of _ = NaN"

definition order_amount :: "magento_order \<Rightarrow> number" where
  "order_amount order =
     (let grandTotal = parseFloat_of (if falsy (grand_total order) then JStr (ascii ''0'')
                                      else grand_total order)
      in if isNaN grandTotal then Fin 0 else grandTotal)"

definition magento_total :: "magento_order list \<Rightarrow> number" where
  "magento_total allOrders = foldl (\<lambda>sum order. num_add sum (order_amount order)) (Fin 0) allOrders"

definition magento_metrics :: "magento_order list \<Rightarrow> StoreMetrics" where
  "magento_metrics allOrders =
     \<lparr>orderCount = length allOrders, totalAmount = magento_total allOrders\<rparr>"

definition fetchMagentoOrders ::
  "(jsstring \<Rightarrow> time_value) \<Rightarrow> magento_body server \<Rightarrow> Store \<Rightarrow> date_range \<Rightarrow>
     http_request list \<times> (js_error + StoreMetrics)" where
  "fetchMagentoOrders other srv store dateRange =
     (case fetchMagentoOrdersPage other srv store dateRange 1 of
        (sent, Inl e) \<Rightarrow> (sent, Inl e)
      | (sent, Inr firstPage) \<Rightarrow>
          (let allOrders = (case items firstPage of None \<Rightarrow> [] | Some xs \<Rightarrow> xs);
               totalItems = (case total_count firstPage of None \<Rightarrow> 0 | Some n \<Rightarrow> n);
               totalPages = (totalItems + 99) div 100
           in case magento_pages other srv store dateRange [2 ..< Suc totalPages] allOrders sent of
                (reqs, Inl e) \<Rightarrow> (reqs, Inl e)
              | (reqs, Inr orders) \<Rightarrow> (reqs, Inr (magento_metrics orders))))"

text \<open>Strings of code units below 256, as the program's own literals and the decimal
  text of numbers are.\<close>

definition plain :: "jsstring \<Rightarrow> bool" where
  "plain s \<longleftrightarrow> (\<forall>c \<in> set s. c < 256)"

section \<open>Report dispatcher\<close>

text \<open>The table \<open>domainName\<close> of \<open>sendToCliq\<close>.\<close>

definition domainName :: "(jsstring \<times> jsstring) list" where
  "domainName =
     [(ascii ''eliquid-com'', ascii ''eliquid.com''),
      (ascii ''MistHub'', ascii ''misthub.com''),
      (ascii ''ejuices-co'', ascii ''ejuices.co''),
      (ascii ''ejuices'', ascii ''ejuices.com''),
      (ascii ''yamivapor'', ascii ''yamivapor''),
      (ascii ''deals-305'', ascii ''alohasunvapor.com''),
      (ascii ''ca2bbf'', ascii ''rodman9k.com'')]"

text \<open>
  \<open>domainName[domain] || domain\<close>. The table is an object literal, so a key that it
  does not hold itself is looked up in \<open>Object.prototype\<close>; the members found there are
  functions or objects, which are truthy, and the template prints the text the runtime
  gives them: the parameter \<open>inherited\<close>.
\<close>

definition Object_prototype_keys :: "jsstring list" where
  "Object_prototype_keys =
     [ascii ''constructor'', ascii ''__defineGetter__'', ascii ''__defineSetter__'',
      ascii ''hasOwnProperty'', ascii ''__lookupGetter__'', ascii ''__lookupSetter__'',
      ascii ''isPrototypeOf'', ascii ''propertyIsEnumerable'', ascii ''toString'',
      ascii ''valueOf'', ascii ''__proto__'', ascii ''toLocaleString'']"

definition display_name :: "(jsstring \<Rightarrow> jsstring) \<Rightarrow> jsstring \<Rightarrow> jsstring" where
  "display_name inherited key =
     (case map_of domainName key of
        Some alias \<Rightarrow> alias
      | None \<Rightarrow> if key \<in> set Object_prototype_keys then inherited key else key)"

text \<open>
  The text of the message. The emoji are written as their code units: the bar chart
  U+1F4CA, the package U+1F4E6 and the rising chart U+1F4C8. The revenue lines of the
  source are commented out there, and \<open>totalAmount\<close> is summed but not printed.
\<close>

definition store_lines :: "(jsstring \<Rightarrow> jsstring) \<Rightarrow> jsstring \<times> StoreMetrics \<Rightarrow> jsstring" where
  "store_lines inherited entry =
     (case entry of (key, metrics) \<Rightarrow>
        display_name inherited key @ ascii '':'' @ [10] @
        [55357, 56550] @ ascii '' Orders: '' @ show_nat (orderCount metrics) @ [10])"

definition report_text ::
  "(jsstring \<Rightarrow> jsstring) \<Rightarrow> StoreMetrics js_object \<Rightarrow> jsstring \<Rightarrow> jsstring" where
  "report_text inherited storeData date =
     (let totalOrders = foldl (\<lambda>sum metrics. sum + orderCount metrics) 0 (Object_values storeData)
      in [55357, 56522] @ ascii '' Sales Report for '' @ date @ [10, 10] @
         join [10, 10] (map (store_lines inherited) (Object_entries storeData)) @
         [10, 10] @ [55357, 56520] @ ascii '' Summary:'' @ [10] @
         ascii ''Total Orders: '' @ show_nat totalOrders @ [10])"

definition DeliveryFailed :: "jsstring \<Rightarrow> js_error" where
  "DeliveryFailed statusText = Error (ascii ''Failed to send message to Cliq: '' @ statusText)"

definition cliq_request :: "jsstring \<Rightarrow> jsstring \<Rightarrow> http_request" where
  "cliq_request webhookUrl message =
     \<lparr>http_method = ascii ''POST'', url = webhookUrl,
      headers = [(ascii ''Content-Type'', ascii ''application/json'')],
      body = MessageBody message\<rparr>"

text \<open>\<open>sendToCliq\<close>: the requests sent and the error raised, if any.\<close>

definition sendToCliq ::
  "(http_request \<Rightarrow> unit http_response) \<Rightarrow> (jsstring \<Rightarrow> jsstring) \<Rightarrow> jsstring \<Rightarrow>
     StoreMetrics js_object \<Rightarrow> jsstring \<Rightarrow> http_request list \<times> (js_error + unit)" where
  "sendToCliq cliq inherited webhookUrl storeData date =
     (let req = cliq_request webhookUrl (report_text inherited storeData date)
      in ([req],
          case cliq req of
            FetchFailed e \<Rightarrow> Inl e
          | Response ok statusText text json \<Rightarrow>
              if \<not> ok then Inl (DeliveryFailed statusText) else Inr ()))"

section \<open>Scheduled entry point\<close>

text \<open>
  What one invocation meets outside the program: the clock, the runtime's reading of
  date strings that are not in the ISO form and its Pacific rendering of a date, the
  text of inherited members, the servers (one conversation for each store task, by the
  store's position in the list, and the webhook), and the order in which the store tasks
  of \<open>Promise.all\<close> complete.
\<close>

record world =
  now :: int
  other_dates :: "jsstring \<Rightarrow> time_value"
  toLocaleDateString :: "time_value \<Rightarrow> jsstring"
  inherited_text :: "jsstring \<Rightarrow> jsstring"
  shopify_api :: "nat \<Rightarrow> shopify_body server"
  magento_api :: "nat \<Rightarrow> magento_body server"
  cliq_api :: "http_request \<Rightarrow> unit http_response"
  completion :: "nat list"

text \<open>
  The tasks run concurrently and each writes its key when it completes. The order of
  completion is any order: each number of \<open>picks\<close> chooses, among the tasks still
  running, the next one to complete; without numbers left they complete in list order.
\<close>

function completion_order :: "nat list \<Rightarrow> 'a list \<Rightarrow> 'a list" where
  "completion_order picks [] = []"
| "completion_order [] (t # ts) = t # ts"
| "completion_order (k # picks) (t # ts) =
     (let i = k mod length (t # ts)
      in (t # ts) ! i # completion_order picks (take i (t # ts) @ drop (Suc i) (t # ts)))"
  by pat_completeness auto
termination
  by (relation "measure (\<lambda>(picks, tasks). length tasks)") auto

text \<open>The body of one store task: the \<open>try\<close> part.\<close>

definition fetchStoreOrders :: "world \<Rightarrow> date_range \<Rightarrow> nat \<Rightarrow> Store \<Rightarrow> js_error + StoreMetrics" where
  "fetchStoreOrders w dateRange i store =
     (if is_shopify store then snd (fetchShopifyOrders (shopify_api w i) store dateRange)
      else snd (fetchMagentoOrders (other_dates w) (magento_api w i) store dateRange))"

definition zero_metrics :: StoreMetrics where
  "zero_metrics = \<lparr>orderCount = 0, totalAmount = Fin 0\<rparr>"

text \<open>A task completing: it writes \<open>storeMetrics[store.domain]\<close>, and logs the error
  it caught.\<close>

definition store_task ::
  "world \<Rightarrow> date_range \<Rightarrow> StoreMetrics js_object \<times> js_error list \<Rightarrow> nat \<times> Store \<Rightarrow>
     StoreMetrics js_object \<times> js_error list" where
  "store_task w dateRange state task =
     (case (state, task) of
        ((storeMetrics, logged), (i, store)) \<Rightarrow>
          (case fetchStoreOrders w dateRange i store of
             Inr metrics \<Rightarrow> (obj_set storeMetrics (domain store) metrics, logged)
           | Inl e \<Rightarrow> (obj_set storeMetrics (domain store) zero_metrics, logged @ [e])))"

definition fetchAllStores ::
  "world \<Rightarrow> date_range \<Rightarrow> Store list \<Rightarrow> StoreMetrics js_object \<times> js_error list" where
  "fetchAllStores w dateRange stores =
     foldl (store_task w dateRange) ([], [])
       (completion_order (completion w) (enumerate 0 stores))"

definition zoho_url :: "Environment \<Rightarrow> jsstring" where
  "zoho_url env =
     template (ZOHO_CLIQ_API_ENDPOINT env) @ ascii ''?zapikey='' @
     template (ZOHO_CLIQ_WEBHOOK_TOKEN env) @ ascii ''&bot_unique_name='' @
     template (ZOHO_CLIQ_BOTNAME env)"

record run_outcome =
  errors_logged :: "js_error list"
  webhook_requests :: "http_request list"

text \<open>The \<open>try\<close> block of \<open>scheduled\<close>, and \<open>scheduled\<close> with its \<open>catch\<close>.\<close>

definition scheduled_try :: "world \<Rightarrow> Environment \<Rightarrow> run_outcome \<times> (js_error + unit)" where
  "scheduled_try w env =
     (case getYesterdayPST (now w) of
        Inl e \<Rightarrow> (\<lparr>errors_logged = [], webhook_requests = []\<rparr>, Inl e)
      | Inr dateRange \<Rightarrow>
          (let date = toLocaleDateString w (Date_parse (other_dates w) (start dateRange))
           in case getStoresFromEnv env of
                Inl e \<Rightarrow> (\<lparr>errors_logged = [], webhook_requests = []\<rparr>, Inl e)
              | Inr stores \<Rightarrow>
                  (case fetchAllStores w dateRange stores of
                     (storeMetrics, logged) \<Rightarrow>
                       (case sendToCliq (cliq_api w) (inherited_text w) (zoho_url env)
                               storeMetrics date of
                          (sent, result) \<Rightarrow>
                            (\<lparr>errors_logged = logged, webhook_requests = sent\<rparr>, result)))))"

definition scheduled :: "world \<Rightarrow> Environment \<Rightarrow> run_outcome \<times> (js_error + unit)" where
  "scheduled w env =
     (case scheduled_try w env of
        (outcome, Inl e) \<Rightarrow> (outcome\<lparr>errors_logged := errors_logged outcome @ [e]\<rparr>, Inr ())
      | (outcome, Inr done) \<Rightarrow> (outcome, Inr done))"

text \<open>What a store task writes under its key: the metrics fetched, or zeros after an
  error.\<close>

definition settled_metrics :: "world \<Rightarrow> date_range \<Rightarrow> nat \<times> Store \<Rightarrow> StoreMetrics" where
  "settled_metrics w dateRange task =
     (case fetchStoreOrders w dateRange (fst task) (snd task) of
        Inr metrics \<Rightarrow> metrics
      | Inl e \<Rightarrow> zero_metrics)"

text \<open>The writes of the store tasks, in the order of their completion.\<close>

definition completed_writes :: "world \<Rightarrow> date_range \<Rightarrow> Store list \<Rightarrow> (jsstring \<times> StoreMetrics) list" where
  "completed_writes w dateRange stores =
     map (\<lambda>task. (domain (snd task), settled_metrics w dateRange task))
       (completion_order (completion w) (enumerate 0 stores))"

text \<open>Worlds to build examples from: one where every request is rejected, at the clock
  2024-03-15T10:00:00.000Z; and one where the Shopify server of the first store task
  answers 429 and every other one answers a single page of five orders of 20.00 each.\<close>

definition offline_world :: world where
  "offline_world =
     \<lparr>now = 1710496800000, other_dates = (\<lambda>s. None), toLocaleDateString = (\<lambda>t. []),
      inherited_text = (\<lambda>k. []),
      shopify_api = (\<lambda>i n req. FetchFailed TypeError),
      magento_api = (\<lambda>i n req. FetchFailed TypeError),
      cliq_api = (\<lambda>req. FetchFailed TypeError), completion = []\<rparr>"

definition five_orders :: orders_page where
  "five_orders =
     \<lparr>edges = replicate 5 \<lparr>node_id = ascii ''gid://shopify/Order/1'', amount = ascii ''20.00'',
                             currencyCode = ascii ''USD''\<rparr>,
      pageInfo = \<lparr>hasNextPage = False, endCursor = None\<rparr>\<rparr>"

definition example_world :: world where
  "example_world =
     offline_world
       \<lparr>shopify_api := (\<lambda>i n req.
            if i = 0 then Response False (ascii ''Too Many Requests'') [] None
            else Response True (ascii ''OK'') [] (Some (OrdersData five_orders))),
        cliq_api := (\<lambda>req. Response True (ascii ''OK'') [] None)\<rparr>"

definition example_env :: Environment where
  "example_env =
     unset_env
       \<lparr>SHOPIFY_DOMAINS := Some (ascii ''shop-a,shop-b''),
        SHOPIFY_ACCESS_TOKENS := Some (ascii ''t1,t2''),
        ZOHO_CLIQ_API_ENDPOINT := Some (ascii ''https://cliq.example/api''),
        ZOHO_CLIQ_WEBHOOK_TOKEN := Some (ascii ''key''),
        ZOHO_CLIQ_BOTNAME := Some (ascii ''bot'')\<rparr>"

definition example_range :: date_range where
  "example_range =
     \<lparr>start = ascii ''2024-03-14T08:00:00.000Z'', end' = ascii ''2024-03-15T07:59:59.999Z''\<rparr>"

section \<open>Basic facts\<close>

lemma ascii_Nil [simp]: "ascii [] = []"
  by (simp add: ascii_def)

lemma replicate_numeral: "replicate (numeral k) x = x # replicate (pred_numeral k) x"
  by (simp add: numeral_eq_Suc)

lemma split_comma_not_Nil: "split_comma s \<noteq> []"
  by (induction s) (auto split: list.splits)

text \<open>\<open>split_comma\<close> is \<open>split(',')\<close>: one entry more than commas, no comma inside an
  entry, and joining the entries with commas gives the string back.\<close>

lemma length_split_comma: "length (split_comma s) = Suc (count_list s comma)"
  by (induction s) (auto split: list.splits simp: split_comma_not_Nil)

lemma join_split_comma: "join [comma] (split_comma s) = s"
proof (induction s)
  case Nil
  show ?case by simp
next
  case (Cons c cs)
  obtain w ws where w: "split_comma cs = w # ws"
    using split_comma_not_Nil [of cs] by (cases "split_comma cs") auto
  with Cons show ?case
    by (cases ws) auto
qed

lemma comma_free_split_comma: "e \<in> set (split_comma s) \<Longrightarrow> comma \<notin> set e"
proof (induction s arbitrary: e)
  case Nil
  then show ?case by simp
next
  case (Cons c cs)
  obtain w ws where w: "split_comma cs = w # ws"
    using split_comma_not_Nil [of cs] by (cases "split_comma cs") auto
  with Cons show ?case
    by (auto split: if_splits)
qed

section \<open>Configuration loader: the claims\<close>

lemma magentoStoresFromEnv_Inr:
  "\<exists>ms. magentoStoresFromEnv env = Inr ms \<and> (\<forall>m \<in> set ms. \<not> is_shopify m)"
  by (auto simp: magentoStoresFromEnv_def Let_def)

lemma filter_is_shopify_map:
  "filter is_shopify (map (\<lambda>i. ShopifyStore (f i) (g i)) xs) = map (\<lambda>i. ShopifyStore (f i) (g i)) xs"
  by (induction xs) auto

lemma getStoresFromEnv_Inr:
  "getStoresFromEnv env = Inr stores \<Longrightarrow>
     \<exists>shops mags. shopifyStoresFromEnv env = Inr shops \<and> magentoStoresFromEnv env = Inr mags \<and>
       stores = shops @ mags"
  by (auto simp: getStoresFromEnv_def split: sum.splits)

lemma shopifyStoresFromEnv_members:
  assumes "shopifyStoresFromEnv env = Inr shops" and "s \<in> set shops"
  shows "is_shopify s \<and>
         domain s \<in> trim ` set (split_comma (string_of (SHOPIFY_DOMAINS env))) \<and>
         accessToken s \<in> trim ` set (split_comma (string_of (SHOPIFY_ACCESS_TOKENS env)))"
proof (cases "truthy (SHOPIFY_DOMAINS env) \<and> truthy (SHOPIFY_ACCESS_TOKENS env)")
  case False
  with assms show ?thesis by (auto simp: shopifyStoresFromEnv_def)
next
  case True
  let ?ds = "split_comma (string_of (SHOPIFY_DOMAINS env))"
  let ?ts = "split_comma (string_of (SHOPIFY_ACCESS_TOKENS env))"
  from True assms(1) have len: "length ?ds = length ?ts"
    and shops: "shops = map (\<lambda>index. ShopifyStore (map trim ?ds ! index) (map trim ?ts ! index))
                          [0 ..< length ?ds]"
    by (auto simp: shopifyStoresFromEnv_def Let_def split: if_splits)
  from assms(2) shops obtain i where i: "i < length ?ds"
    and s: "s = ShopifyStore (map trim ?ds ! i) (map trim ?ts ! i)"
    by auto
  from i len have "map trim ?ds ! i \<in> trim ` set ?ds" "map trim ?ts ! i \<in> trim ` set ?ts"
    by simp_all
  with s show ?thesis by simp
qed

lemma magentoStoresFromEnv_members:
  assumes "magentoStoresFromEnv env = Inr mags" and "s \<in> set mags"
  shows "\<not> is_shopify s \<and> domain s \<noteq> [] \<and> accessToken s \<noteq> []"
proof -
  from assms have t: "truthy (MAGENTO_DOMAINS env)" "truthy (MAGENTO_ACCESS_TOKENS env)"
    and s: "s = MagentoStore (string_of (MAGENTO_DOMAINS env)) (string_of (MAGENTO_ACCESS_TOKENS env))"
    by (auto simp: magentoStoresFromEnv_def Let_def split: if_splits)
  from t have "string_of (MAGENTO_DOMAINS env) \<noteq> []" "string_of (MAGENTO_ACCESS_TOKENS env) \<noteq> []"
    by (cases "MAGENTO_DOMAINS env"; cases "MAGENTO_ACCESS_TOKENS env"; simp)+
  with s show ?thesis by simp
qed

text \<open>
  C3. With \<open>SHOPIFY_DOMAINS\<close> and \<open>SHOPIFY_ACCESS_TOKENS\<close> both set and not empty:
  when the two values split on commas into different numbers of entries,
  \<open>getStoresFromEnv\<close> raises the error "Number of domains and access tokens must
  match"; when they split into the same number \<open>N\<close> of entries, it returns a list whose
  Shopify descriptors are exactly the \<open>N\<close> pairs of the \<open>i\<close>-th trimmed domain with the
  \<open>i\<close>-th trimmed token.
\<close>

theorem getStoresFromEnv_parity:
  assumes "SHOPIFY_DOMAINS env = Some d" and "d \<noteq> []"
    and "SHOPIFY_ACCESS_TOKENS env = Some t" and "t \<noteq> []"
  shows "(length (split_comma d) \<noteq> length (split_comma t) \<longrightarrow>
            getStoresFromEnv env = Inl InvalidConfiguration) \<and>
         (length (split_comma d) = length (split_comma t) \<longrightarrow>
            (\<exists>stores. getStoresFromEnv env = Inr stores \<and>
               filter is_shopify stores =
                 map (\<lambda>i. ShopifyStore (trim (split_comma d ! i)) (trim (split_comma t ! i)))
                   [0 ..< length (split_comma d)]))"
proof (intro conjI impI)
  assume "length (split_comma d) \<noteq> length (split_comma t)"
  with assms show "getStoresFromEnv env = Inl InvalidConfiguration"
    by (simp add: getStoresFromEnv_def shopifyStoresFromEnv_def Let_def)
next
  assume eq: "length (split_comma d) = length (split_comma t)"
  obtain ms where ms: "magentoStoresFromEnv env = Inr ms" "\<forall>m \<in> set ms. \<not> is_shopify m"
    using magentoStoresFromEnv_Inr by blast
  let ?shops = "map (\<lambda>index. ShopifyStore (map trim (split_comma d) ! index)
                     (map trim (split_comma t) ! index)) [0 ..< length (split_comma d)]"
  have sh: "shopifyStoresFromEnv env = Inr ?shops"
    using assms eq by (simp add: shopifyStoresFromEnv_def Let_def)
  have res: "getStoresFromEnv env = Inr (?shops @ ms)"
    by (simp add: getStoresFromEnv_def sh ms)
  have "filter is_shopify ms = []"
    using ms(2) by (induction ms) auto
  then have fl: "filter is_shopify (?shops @ ms) = ?shops"
    by (simp add: filter_is_shopify_map)
  show "\<exists>stores. getStoresFromEnv env = Inr stores \<and>
               filter is_shopify stores =
                 map (\<lambda>i. ShopifyStore (trim (split_comma d ! i)) (trim (split_comma t ! i)))
                   [0 ..< length (split_comma d)]"
    using res fl eq by (intro exI [of _ "?shops @ ms"]) simp
qed

theorem getStoresFromEnv_parity_witness:
  "(\<exists>stores. getStoresFromEnv (unset_env\<lparr>SHOPIFY_DOMAINS := Some (ascii '' a.com , b.com ''),
        SHOPIFY_ACCESS_TOKENS := Some (ascii ''t1,t2'')\<rparr>) = Inr stores \<and>
      filter is_shopify stores =
        [ShopifyStore (ascii ''a.com'') (ascii ''t1''), ShopifyStore (ascii ''b.com'') (ascii ''t2'')]) \<and>
   getStoresFromEnv (unset_env\<lparr>SHOPIFY_DOMAINS := Some (ascii ''a.com,b.com''),
        SHOPIFY_ACCESS_TOKENS := Some (ascii ''t1'')\<rparr>) = Inl InvalidConfiguration"
proof -
  let ?e1 = "unset_env\<lparr>SHOPIFY_DOMAINS := Some (ascii '' a.com , b.com ''),
        SHOPIFY_ACCESS_TOKENS := Some (ascii ''t1,t2'')\<rparr>"
  let ?e2 = "unset_env\<lparr>SHOPIFY_DOMAINS := Some (ascii ''a.com,b.com''),
        SHOPIFY_ACCESS_TOKENS := Some (ascii ''t1'')\<rparr>"
  have sp: "split_comma (ascii '' a.com , b.com '') = [ascii '' a.com '', ascii '' b.com '']"
     "split_comma (ascii ''t1,t2'') = [ascii ''t1'', ascii ''t2'']"
     "split_comma (ascii ''a.com,b.com'') = [ascii ''a.com'', ascii ''b.com'']"
     "split_comma (ascii ''t1'') = [ascii ''t1'']"
    by (simp_all add: ascii_def comma_def)
  have tr: "trim (ascii '' a.com '') = ascii ''a.com''" "trim (ascii '' b.com '') = ascii ''b.com''"
     "trim (ascii ''t1'') = ascii ''t1''"  "trim (ascii ''t2'') = ascii ''t2''"
    by (simp_all add: ascii_def trim_def is_white_space_def)
  have ne: "ascii '' a.com , b.com '' \<noteq> []" "ascii ''t1,t2'' \<noteq> []" "ascii ''a.com,b.com'' \<noteq> []"
     "ascii ''t1'' \<noteq> []"
    by (simp_all add: ascii_def)
  have "\<exists>stores. getStoresFromEnv ?e1 = Inr stores \<and> filter is_shopify stores =
        [ShopifyStore (ascii ''a.com'') (ascii ''t1''), ShopifyStore (ascii ''b.com'') (ascii ''t2'')]"
    using getStoresFromEnv_parity [of ?e1 "ascii '' a.com , b.com ''" "ascii ''t1,t2''"] ne
    by (simp add: sp tr upt_rec)
  moreover have "getStoresFromEnv ?e2 = Inl InvalidConfiguration"
    using getStoresFromEnv_parity [of ?e2 "ascii ''a.com,b.com''" "ascii ''t1''"] ne
    by (simp add: sp)
  ultimately show ?thesis by blast
qed

text \<open>
  C9 (as stated, refuted). With \<open>SHOPIFY_DOMAINS = "shop-a,"\<close> and
  \<open>SHOPIFY_ACCESS_TOKENS = "tok1,tok2"\<close> the loader succeeds and its second descriptor
  has an empty domain: the entries are trimmed and paired, never checked.
\<close>

theorem getStoresFromEnv_empty_domain_counterexample:
  "getStoresFromEnv (unset_env\<lparr>SHOPIFY_DOMAINS := Some (ascii ''shop-a,''),
       SHOPIFY_ACCESS_TOKENS := Some (ascii ''tok1,tok2'')\<rparr>) =
     Inr [ShopifyStore (ascii ''shop-a'') (ascii ''tok1''), ShopifyStore [] (ascii ''tok2'')] \<and>
   domain (ShopifyStore [] (ascii ''tok2'')) = []"
  by (simp add: getStoresFromEnv_def shopifyStoresFromEnv_def magentoStoresFromEnv_def
      unset_env_def ascii_def comma_def trim_def is_white_space_def Let_def upt_rec)

text \<open>
  C9 (amended). In the list that \<open>getStoresFromEnv\<close> returns, a Magento descriptor has a
  non-empty domain and a non-empty access token; so has a Shopify descriptor, provided
  that every comma-separated entry of \<open>SHOPIFY_DOMAINS\<close> and of
  \<open>SHOPIFY_ACCESS_TOKENS\<close> holds a character that is not white space.
\<close>

theorem getStoresFromEnv_nonempty_fields:
  assumes "getStoresFromEnv env = Inr stores" and "s \<in> set stores"
    and "is_shopify s \<longrightarrow>
           (\<forall>e \<in> set (split_comma (string_of (SHOPIFY_DOMAINS env))). trim e \<noteq> []) \<and>
           (\<forall>e \<in> set (split_comma (string_of (SHOPIFY_ACCESS_TOKENS env))). trim e \<noteq> [])"
  shows "domain s \<noteq> [] \<and> accessToken s \<noteq> []"
proof -
  from assms(1) obtain shops mags where sm: "shopifyStoresFromEnv env = Inr shops"
    "magentoStoresFromEnv env = Inr mags" "stores = shops @ mags"
    using getStoresFromEnv_Inr by blast
  from assms(2) sm(3) consider "s \<in> set shops" | "s \<in> set mags" by auto
  then show ?thesis
  proof cases
    case 1
    from shopifyStoresFromEnv_members [OF sm(1) 1] assms(3) show ?thesis by auto
  next
    case 2
    from magentoStoresFromEnv_members [OF sm(2) 2] show ?thesis by simp
  qed
qed

theorem getStoresFromEnv_nonempty_fields_witness:
  "getStoresFromEnv (unset_env\<lparr>SHOPIFY_DOMAINS := Some (ascii ''shop-a, shop-b''),
       SHOPIFY_ACCESS_TOKENS := Some (ascii ''tok1,tok2''),
       MAGENTO_DOMAINS := Some (ascii ''m.example.com''),
       MAGENTO_ACCESS_TOKENS := Some (ascii ''tok3'')\<rparr>) =
     Inr [ShopifyStore (ascii ''shop-a'') (ascii ''tok1''),
          ShopifyStore (ascii ''shop-b'') (ascii ''tok2''),
          MagentoStore (ascii ''m.example.com'') (ascii ''tok3'')] \<and>
   domain (ShopifyStore (ascii ''shop-b'') (ascii ''tok2'')) \<noteq> [] \<and>
   accessToken (ShopifyStore (ascii ''shop-b'') (ascii ''tok2'')) \<noteq> []"
proof -
  let ?env = "unset_env\<lparr>SHOPIFY_DOMAINS := Some (ascii ''shop-a, shop-b''),
       SHOPIFY_ACCESS_TOKENS := Some (ascii ''tok1,tok2''),
       MAGENTO_DOMAINS := Some (ascii ''m.example.com''),
       MAGENTO_ACCESS_TOKENS := Some (ascii ''tok3'')\<rparr>"
  let ?stores = "[ShopifyStore (ascii ''shop-a'') (ascii ''tok1''),
          ShopifyStore (ascii ''shop-b'') (ascii ''tok2''),
          MagentoStore (ascii ''m.example.com'') (ascii ''tok3'')]"
  have run: "getStoresFromEnv ?env = Inr ?stores"
    by (simp add: getStoresFromEnv_def shopifyStoresFromEnv_def magentoStoresFromEnv_def
      unset_env_def ascii_def comma_def trim_def is_white_space_def Let_def upt_rec)
  have mem: "ShopifyStore (ascii ''shop-b'') (ascii ''tok2'') \<in> set ?stores"
    by simp
  have nb: "is_shopify (ShopifyStore (ascii ''shop-b'') (ascii ''tok2'')) \<longrightarrow>
           (\<forall>e \<in> set (split_comma (string_of (SHOPIFY_DOMAINS ?env))). trim e \<noteq> []) \<and>
           (\<forall>e \<in> set (split_comma (string_of (SHOPIFY_ACCESS_TOKENS ?env))). trim e \<noteq> [])"
    by (simp add: unset_env_def ascii_def comma_def trim_def is_white_space_def)
  from getStoresFromEnv_nonempty_fields [OF run mem nb] run show ?thesis by simp
qed

section \<open>The Magento query string is always built\<close>

lemma plain_Nil [simp]: "plain []"
  by (simp add: plain_def)

lemma plain_append [simp]: "plain (s @ t) \<longleftrightarrow> plain s \<and> plain t"
  by (auto simp: plain_def)

lemma plain_ascii [simp]: "plain (ascii s)"
  by (simp add: plain_def ascii_def)

lemma plain_show_nat [simp]: "plain (show_nat n)"
proof (induction n rule: show_nat.induct)
  case (1 n)
  show ?case
  proof (cases "n < 10")
    case True
    then show ?thesis by (subst show_nat.simps) (simp add: plain_def)
  next
    case False
    with 1 show ?thesis by (subst show_nat.simps) (simp add: plain_def)
  qed
qed

lemma plain_show_number [simp]: "plain (show_number x)"
  by (cases x) (simp_all add: show_int_def plain_def [of "_ # _"] plain_show_nat [unfolded plain_def])

lemma plain_padStart [simp]: "plain s \<Longrightarrow> plain (padStart n s)"
  by (simp add: padStart_def) (simp add: plain_def)

lemma plain_formatDate [simp]: "plain (formatDate other date isEndDate)"
  by (simp add: formatDate_def Let_def)

lemma encodeURIComponent_plain: "plain s \<Longrightarrow> \<exists>r. encodeURIComponent s = Some r"
proof (induction s)
  case Nil
  show ?case by simp
next
  case (Cons c cs)
  then have c: "c < 256" and cs: "plain cs" by (simp_all add: plain_def)
  from Cons.IH [OF cs] obtain r where "encodeURIComponent cs = Some r" by blast
  with c show ?case
    by (simp add: is_trail_surrogate_def is_lead_surrogate_def)
qed

lemma encode_entries_plain:
  "\<forall>(k, v) \<in> set entries. plain k \<and> plain v \<Longrightarrow> \<exists>parts. encode_entries entries = Some parts"
proof (induction entries)
  case Nil
  show ?case by simp
next
  case (Cons kv entries)
  obtain k v where kv: "kv = (k, v)" by (cases kv)
  from Cons.prems kv have "plain k" "plain v" by simp_all
  then obtain k' v' where "encodeURIComponent k = Some k'" "encodeURIComponent v = Some v'"
    using encodeURIComponent_plain by blast
  moreover from Cons obtain rest where "encode_entries entries = Some rest" by auto
  ultimately show ?case by (simp add: kv)
qed

lemma encode_entries_searchCriteria:
  "\<exists>parts. encode_entries (searchCriteria other dateRange page) = Some parts"
  by (rule encode_entries_plain) (simp add: searchCriteria_def Let_def)

section \<open>Date range calculator: the claim\<close>

lemmas text_eval = iso_year_def pad_int_def show_int_def padStart_def ascii_def

subsection \<open>The calendar at the instants of the example\<close>

lemma toISOString_Some: "\<exists>s. toISOString (Some t) = Inr s"
  by (simp add: toISOString_def)

lemma fields_now:
  "YearFromTime 1710496800000 = 2024" "MonthFromTime 1710496800000 = 2"
  "DateFromTime 1710496800000 = 15"
proof -
  have d: "Day 1710496800000 = 19797" unfolding Day_def msPerDay_def by simp
  show y: "YearFromTime 1710496800000 = 2024"
    unfolding YearFromTime_def d YearFromDay_def DayFromYear_def Let_def by simp
  have w: "DayWithinYear 1710496800000 = 74" unfolding DayWithinYear_def d y DayFromYear_def by simp
  have l: "InLeapYear 1710496800000 = 1" unfolding InLeapYear_def y DaysInYear_def by simp
  show m: "MonthFromTime 1710496800000 = 2" unfolding MonthFromTime_def w l Let_def by simp
  show "DateFromTime 1710496800000 = 15" unfolding DateFromTime_def w l m Let_def by simp
qed

lemma fields_current:
  "YearFromTime 1710468000000 = 2024" "MonthFromTime 1710468000000 = 2"
  "DateFromTime 1710468000000 = 15"
proof -
  have d: "Day 1710468000000 = 19797" unfolding Day_def msPerDay_def by simp
  show y: "YearFromTime 1710468000000 = 2024"
    unfolding YearFromTime_def d YearFromDay_def DayFromYear_def Let_def by simp
  have w: "DayWithinYear 1710468000000 = 74" unfolding DayWithinYear_def d y DayFromYear_def by simp
  have l: "InLeapYear 1710468000000 = 1" unfolding InLeapYear_def y DaysInYear_def by simp
  show m: "MonthFromTime 1710468000000 = 2" unfolding MonthFromTime_def w l Let_def by simp
  show "DateFromTime 1710468000000 = 15" unfolding DateFromTime_def w l m Let_def by simp
qed

lemma fields_yesterday:
  "YearFromTime 1710381600000 = 2024" "MonthFromTime 1710381600000 = 2"
  "DateFromTime 1710381600000 = 14"
proof -
  have d: "Day 1710381600000 = 19796" unfolding Day_def msPerDay_def by simp
  show y: "YearFromTime 1710381600000 = 2024"
    unfolding YearFromTime_def d YearFromDay_def DayFromYear_def Let_def by simp
  have w: "DayWithinYear 1710381600000 = 73" unfolding DayWithinYear_def d y DayFromYear_def by simp
  have l: "InLeapYear 1710381600000 = 1" unfolding InLeapYear_def y DaysInYear_def by simp
  show m: "MonthFromTime 1710381600000 = 2" unfolding MonthFromTime_def w l Let_def by simp
  show "DateFromTime 1710381600000 = 14" unfolding DateFromTime_def w l m Let_def by simp
qed

lemma fields_start:
  "YearFromTime 1710403200000 = 2024" "MonthFromTime 1710403200000 = 2"
  "DateFromTime 1710403200000 = 14"
proof -
  have d: "Day 1710403200000 = 19796" unfolding Day_def msPerDay_def by simp
  show y: "YearFromTime 1710403200000 = 2024"
    unfolding YearFromTime_def d YearFromDay_def DayFromYear_def Let_def by simp
  have w: "DayWithinYear 1710403200000 = 73" unfolding DayWithinYear_def d y DayFromYear_def by simp
  have l: "InLeapYear 1710403200000 = 1" unfolding InLeapYear_def y DaysInYear_def by simp
  show m: "MonthFromTime 1710403200000 = 2" unfolding MonthFromTime_def w l Let_def by simp
  show "DateFromTime 1710403200000 = 14" unfolding DateFromTime_def w l m Let_def by simp
qed

lemma fields_end:
  "YearFromTime 1710489599999 = 2024" "MonthFromTime 1710489599999 = 2"
  "DateFromTime 1710489599999 = 15"
proof -
  have d: "Day 1710489599999 = 19797" unfolding Day_def msPerDay_def by simp
  show y: "YearFromTime 1710489599999 = 2024"
    unfolding YearFromTime_def d YearFromDay_def DayFromYear_def Let_def by simp
  have w: "DayWithinYear 1710489599999 = 74" unfolding DayWithinYear_def d y DayFromYear_def by simp
  have l: "InLeapYear 1710489599999 = 1" unfolding InLeapYear_def y DaysInYear_def by simp
  show m: "MonthFromTime 1710489599999 = 2" unfolding MonthFromTime_def w l Let_def by simp
  show "DateFromTime 1710489599999 = 15" unfolding DateFromTime_def w l m Let_def by simp
qed

lemma MakeDay_example: "MakeDay 2024 2 14 = 19796" "MakeDay 2024 2 15 = 19797"
  unfolding MakeDay_def DayFromYear_def DaysBeforeMonth_def DaysInYear_def Let_def by simp_all

lemma iso_now: "toISOString (Some 1710496800000) = Inr (ascii ''2024-03-15T10:00:00.000Z'')"
proof -
  have "HourFromTime 1710496800000 = 10" "MinFromTime 1710496800000 = 0"
    "SecFromTime 1710496800000 = 0" "msFromTime 1710496800000 = 0"
    unfolding HourFromTime_def MinFromTime_def SecFromTime_def msFromTime_def by simp_all
  then show ?thesis
    unfolding toISOString_def option.case fields_now text_eval
    by (simp add: show_nat.simps replicate_numeral)
qed

lemma iso_start: "toISOString (Some 1710403200000) = Inr (ascii ''2024-03-14T08:00:00.000Z'')"
proof -
  have "HourFromTime 1710403200000 = 8" "MinFromTime 1710403200000 = 0"
    "SecFromTime 1710403200000 = 0" "msFromTime 1710403200000 = 0"
    unfolding HourFromTime_def MinFromTime_def SecFromTime_def msFromTime_def by simp_all
  then show ?thesis
    unfolding toISOString_def option.case fields_start text_eval
    by (simp add: show_nat.simps replicate_numeral)
qed

lemma iso_end: "toISOString (Some 1710489599999) = Inr (ascii ''2024-03-15T07:59:59.999Z'')"
proof -
  have "HourFromTime 1710489599999 = 7" "MinFromTime 1710489599999 = 59"
    "SecFromTime 1710489599999 = 59" "msFromTime 1710489599999 = 999"
    unfolding HourFromTime_def MinFromTime_def SecFromTime_def msFromTime_def by simp_all
  then show ?thesis
    unfolding toISOString_def option.case fields_end text_eval
    by (simp add: show_nat.simps replicate_numeral)
qed

lemma getYesterdayPST_example:
  "getYesterdayPST 1710496800000 =
     Inr \<lparr>start = ascii ''2024-03-14T08:00:00.000Z'', end' = ascii ''2024-03-15T07:59:59.999Z''\<rparr>"
proof -
  have cur: "setTime (Some (1710496800000 + (- 8 * 60 * 60 * 1000))) = Some 1710468000000"
    by (simp add: setTime_def TimeClip_def)
  obtain s1 where s1: "toISOString (Some 1710468000000) = Inr s1"
    using toISOString_Some by blast
  have yes: "setUTCDate (Some 1710468000000)
               (map_option (\<lambda>d. d - 1) (getUTCDate (Some 1710468000000))) = Some 1710381600000"
    unfolding setUTCDate_def getUTCDate_def option.map
    by (simp add: fields_current MakeDay_example MakeDate_def TimeWithinDay_def msPerDay_def
        TimeClip_def)
  obtain s2 where s2: "toISOString (Some 1710381600000) = Inr s2"
    using toISOString_Some by blast
  have st: "Date_UTC (getUTCFullYear (Some 1710381600000)) (getUTCMonth (Some 1710381600000))
              (getUTCDate (Some 1710381600000)) 8 0 0 0 = Some 1710403200000"
    unfolding getUTCFullYear_def getUTCMonth_def getUTCDate_def option.map Date_UTC_def
    by (simp add: fields_yesterday MakeDay_example MakeDate_def MakeTime_def msPerDay_def
        TimeClip_def)
  have en: "Date_UTC (getUTCFullYear (Some 1710381600000)) (getUTCMonth (Some 1710381600000))
              (map_option (\<lambda>d. d + 1) (getUTCDate (Some 1710381600000))) 7 59 59 999 =
            Some 1710489599999"
    unfolding getUTCFullYear_def getUTCMonth_def getUTCDate_def option.map Date_UTC_def
    by (simp add: fields_yesterday MakeDay_example MakeDate_def MakeTime_def msPerDay_def
        TimeClip_def)
  show ?thesis
    unfolding getYesterdayPST_def cur Let_def s1 sum.case yes s2 st en iso_start iso_end
    by simp
qed

text \<open>
  C1 (as stated, refuted). At the instant 2024-03-15T10:00:00.000Z the range returned is
  not the one from 2024-03-13T08:00:00.000Z to 2024-03-14T07:59:59.999Z.
\<close>

theorem getYesterdayPST_spec_range_counterexample:
  "toISOString (Some 1710496800000) = Inr (ascii ''2024-03-15T10:00:00.000Z'') \<and>
   getYesterdayPST 1710496800000 \<noteq>
     Inr \<lparr>start = ascii ''2024-03-13T08:00:00.000Z'', end' = ascii ''2024-03-14T07:59:59.999Z''\<rparr>"
  by (simp add: iso_now getYesterdayPST_example ascii_def)

text \<open>
  C1 (amended). At the instant 2024-03-15T10:00:00.000Z, which is 02:00 of 15 March at
  eight hours behind UTC, \<open>getYesterdayPST\<close> returns the range of 14 March there:
  start 2024-03-14T08:00:00.000Z and end 2024-03-15T07:59:59.999Z, as ISO strings.
\<close>

theorem getYesterdayPST_fixed_instant:
  "toISOString (Some 1710496800000) = Inr (ascii ''2024-03-15T10:00:00.000Z'') \<and>
   getYesterdayPST 1710496800000 =
     Inr \<lparr>start = ascii ''2024-03-14T08:00:00.000Z'', end' = ascii ''2024-03-15T07:59:59.999Z''\<rparr>"
  using iso_now getYesterdayPST_example by (rule conjI)

section \<open>Report dispatcher: the text of the report\<close>

lemma no_index_example:
  "\<not> is_array_index (ascii ''eliquid-com'')" "\<not> is_array_index (ascii ''unknown-domain'')"
  by (simp_all add: is_array_index_def ascii_def is_digit_def)

lemma entries_example:
  "Object_entries [(ascii ''eliquid-com'', m1), (ascii ''unknown-domain'', m2)] =
     [(ascii ''eliquid-com'', m1), (ascii ''unknown-domain'', m2)]"
  by (simp add: Object_entries_def no_index_example)

lemma display_example:
  "display_name inh (ascii ''eliquid-com'') = ascii ''eliquid.com''"
  "display_name inh (ascii ''unknown-domain'') = ascii ''unknown-domain''"
  by (simp_all add: display_name_def domainName_def Object_prototype_keys_def ascii_def)

lemma report_text_example:
  "report_text inherited
     [(ascii ''eliquid-com'', \<lparr>orderCount = 2, totalAmount = a\<rparr>),
      (ascii ''unknown-domain'', \<lparr>orderCount = 3, totalAmount = b\<rparr>)]
     (ascii ''2024-03-14'') =
   [55357, 56522] @ ascii '' Sales Report for 2024-03-14'' @ [10, 10] @
   ascii ''eliquid.com:'' @ [10] @ [55357, 56550] @ ascii '' Orders: 2'' @ [10] @ [10, 10] @
   ascii ''unknown-domain:'' @ [10] @ [55357, 56550] @ ascii '' Orders: 3'' @ [10] @ [10, 10] @
   [55357, 56520] @ ascii '' Summary:'' @ [10] @ ascii ''Total Orders: 5'' @ [10]"
  unfolding report_text_def Object_values_def entries_example Let_def
  by (simp add: store_lines_def display_example show_nat.simps) (simp add: ascii_def)

text \<open>
  C5. For the metrics map with \<open>eliquid-com\<close> (2 orders) and \<open>unknown-domain\<close>
  (3 orders) and the date \<open>2024-03-14\<close>, the message that \<open>sendToCliq\<close> posts is the
  text below, whatever the two amounts are: the header with the date, \<open>eliquid.com\<close>
  for the first store (from the table), \<open>unknown-domain\<close> for the second (its own key),
  the line \<open>Total Orders: 5\<close>, and no line for an amount.
\<close>

theorem sendToCliq_report_example:
  "map body (fst (sendToCliq cliq inherited webhookUrl
     [(ascii ''eliquid-com'', \<lparr>orderCount = 2, totalAmount = Fin 50\<rparr>),
      (ascii ''unknown-domain'', \<lparr>orderCount = 3, totalAmount = Fin 75\<rparr>)]
     (ascii ''2024-03-14''))) =
   [MessageBody
     ([55357, 56522] @ ascii '' Sales Report for 2024-03-14'' @ [10, 10] @
      ascii ''eliquid.com:'' @ [10] @ [55357, 56550] @ ascii '' Orders: 2'' @ [10] @ [10, 10] @
      ascii ''unknown-domain:'' @ [10] @ [55357, 56550] @ ascii '' Orders: 3'' @ [10] @ [10, 10] @
      [55357, 56520] @ ascii '' Summary:'' @ [10] @ ascii ''Total Orders: 5'' @ [10])] \<and>
   report_text inherited
     [(ascii ''eliquid-com'', \<lparr>orderCount = 2, totalAmount = a\<rparr>),
      (ascii ''unknown-domain'', \<lparr>orderCount = 3, totalAmount = b\<rparr>)]
     (ascii ''2024-03-14'') =
   report_text inherited
     [(ascii ''eliquid-com'', \<lparr>orderCount = 2, totalAmount = Fin 50\<rparr>),
      (ascii ''unknown-domain'', \<lparr>orderCount = 3, totalAmount = Fin 75\<rparr>)]
     (ascii ''2024-03-14'')"
  unfolding sendToCliq_def Let_def report_text_example
  by (simp add: cliq_request_def)

section \<open>Objects as dictionaries\<close>

lemma keys_obj_set:
  "map fst (obj_set obj key v) =
     (if key = proto_key \<or> key \<in> set (map fst obj) then map fst obj else map fst obj @ [key])"
  by (auto simp: obj_set_def intro!: map_idI split: prod.splits)

lemma set_keys_obj_set:
  "fst ` set (obj_set obj key v) = fst ` set obj \<union> ({key} - {proto_key})"
  using keys_obj_set [of obj key v, THEN arg_cong, of set] by auto

lemma distinct_obj_set: "distinct (map fst obj) \<Longrightarrow> distinct (map fst (obj_set obj key v))"
  by (simp add: keys_obj_set)

lemma map_of_update_in_place:
  "map_of (map (\<lambda>(k, v'). if k = key then (k, v) else (k, v')) obj) k' =
     (if k' = key \<and> key \<in> fst ` set obj then Some v else map_of obj k')"
proof (induction obj)
  case Nil
  show ?case by simp
next
  case (Cons kv obj)
  obtain k0 v0 where kv: "kv = (k0, v0)" by (cases kv)
  show ?case
  proof (cases "k0 = key")
    case True
    then show ?thesis by (simp add: kv Cons.IH)
  next
    case False
    with Cons.IH show ?thesis by (cases "k' = key") (simp_all add: kv)
  qed
qed

lemma map_of_obj_set:
  "map_of (obj_set obj key v) k' =
     (if key = proto_key then map_of obj k' else ((map_of obj)(key \<mapsto> v)) k')"
proof (cases "key \<in> fst ` set obj")
  case True
  then show ?thesis by (simp add: obj_set_def map_of_update_in_place)
next
  case False
  then have "map_of obj key = None" by (simp add: map_of_eq_None_iff)
  with False show ?thesis
    by (simp add: obj_set_def map_add_def split: option.splits)
qed

lemma set_Object_entries: "set (Object_entries obj) = set obj"
  by (auto simp: Object_entries_def)

lemma distinct_Object_entries:
  assumes "distinct (map fst obj)"
  shows "distinct (map fst (Object_entries obj))"
proof -
  have d: "distinct obj" using assms by (simp add: distinct_map)
  have inj: "inj_on fst (set obj)" using assms by (simp add: distinct_map)
  have "distinct (Object_entries obj)"
    using d by (auto simp: Object_entries_def)
  moreover have "inj_on fst (set (Object_entries obj))"
    using inj by (simp add: set_Object_entries)
  ultimately show ?thesis by (simp add: distinct_map)
qed

section \<open>Completion order\<close>

lemma set_completion_order: "set (completion_order picks tasks) = set tasks"
proof (induction picks tasks rule: completion_order.induct)
  case (1 picks)
  show ?case by simp
next
  case (2 t ts)
  show ?case by simp
next
  case (3 k picks t ts)
  let ?xs = "t # ts"
  let ?i = "k mod length ?xs"
  have i: "?i < length ?xs" by simp
  have "set ?xs = set (take ?i ?xs @ ?xs ! ?i # drop (Suc ?i) ?xs)"
    using id_take_nth_drop [OF i] by simp
  then have "set ?xs = insert (?xs ! ?i) (set (take ?i ?xs @ drop (Suc ?i) ?xs))"
    by simp
  with 3 show ?case by (simp add: Let_def)
qed

section \<open>The metrics map\<close>

lemma store_task_eq:
  "store_task w dr (obj, logged) task =
     (obj_set obj (domain (snd task)) (settled_metrics w dr task),
      logged @ (case fetchStoreOrders w dr (fst task) (snd task) of Inl e \<Rightarrow> [e] | Inr m \<Rightarrow> []))"
  by (cases task) (simp add: store_task_def settled_metrics_def split: sum.splits)

lemma fst_foldl_store_task:
  "fst (foldl (store_task w dr) (obj, logged) tasks) =
     foldl (\<lambda>obj' kv. obj_set obj' (fst kv) (snd kv)) obj
       (map (\<lambda>task. (domain (snd task), settled_metrics w dr task)) tasks)"
  by (induction tasks arbitrary: obj logged) (simp_all add: store_task_eq)

lemma fst_fetchAllStores:
  "fst (fetchAllStores w dr stores) =
     foldl (\<lambda>obj kv. obj_set obj (fst kv) (snd kv)) [] (completed_writes w dr stores)"
  by (simp add: fetchAllStores_def completed_writes_def fst_foldl_store_task)

lemma keys_foldl_obj_set:
  "fst ` set (foldl (\<lambda>obj kv. obj_set obj (fst kv) (snd kv)) obj kvs) =
     fst ` set obj \<union> (fst ` set kvs - {proto_key})"
proof (induction kvs arbitrary: obj)
  case Nil
  show ?case by simp
next
  case (Cons kv kvs)
  show ?case
    unfolding foldl_Cons Cons.IH set_keys_obj_set by auto
qed

lemma distinct_foldl_obj_set:
  "distinct (map fst obj) \<Longrightarrow>
     distinct (map fst (foldl (\<lambda>obj kv. obj_set obj (fst kv) (snd kv)) obj kvs))"
  by (induction kvs arbitrary: obj) (simp_all add: distinct_obj_set)

lemma map_of_foldl_obj_set:
  "key \<noteq> proto_key \<Longrightarrow>
     map_of (foldl (\<lambda>obj kv. obj_set obj (fst kv) (snd kv)) obj kvs) key =
     map_of (rev kvs @ obj) key"
proof (induction kvs arbitrary: obj)
  case Nil
  show ?case by simp
next
  case (Cons kv kvs)
  have "map_of (rev kvs @ obj_set obj (fst kv) (snd kv)) key = map_of (rev kvs @ [kv] @ obj) key"
    using Cons.prems
    by (cases kv) (simp add: map_add_def map_of_obj_set split: option.splits)
  with Cons show ?case by simp
qed

lemma set_completed_writes:
  "set (completed_writes w dr stores) =
     (\<lambda>task. (domain (snd task), settled_metrics w dr task)) ` set (enumerate 0 stores)"
  by (simp add: completed_writes_def set_completion_order)

lemma snd_set_enumerate: "snd ` set (enumerate n xs) = set xs"
proof -
  have "map snd (enumerate n xs) = xs"
    by (simp add: enumerate_eq_zip)
  then show ?thesis by (metis list.set_map)
qed

lemma fst_set_completed_writes: "fst ` set (completed_writes w dr stores) = domain ` set stores"
proof -
  have "fst ` set (completed_writes w dr stores) = domain ` (snd ` set (enumerate 0 stores))"
    by (simp add: set_completed_writes image_image)
  then show ?thesis by (simp add: snd_set_enumerate)
qed

section \<open>Scheduled entry point: the claims\<close>

lemma keys_fetchAllStores:
  "fst ` set (fst (fetchAllStores w dr stores)) = domain ` set stores - {proto_key}"
  by (simp add: fst_fetchAllStores keys_foldl_obj_set fst_set_completed_writes)

lemma distinct_keys_fetchAllStores: "distinct (map fst (fst (fetchAllStores w dr stores)))"
  by (simp add: fst_fetchAllStores distinct_foldl_obj_set)

lemma map_of_fetchAllStores:
  "key \<noteq> proto_key \<Longrightarrow>
     map_of (fst (fetchAllStores w dr stores)) key = map_of (rev (completed_writes w dr stores)) key"
  by (simp add: fst_fetchAllStores map_of_foldl_obj_set)

lemma map_of_unique:
  assumes "(k, v) \<in> set xs" and "\<And>v'. (k, v') \<in> set xs \<Longrightarrow> v' = v"
  shows "map_of xs k = Some v"
proof -
  from assms(1) have "k \<in> fst ` set xs" by (rule image_eqI [rotated]) simp
  then have "map_of xs k \<noteq> None" by (simp add: map_of_eq_None_iff)
  then obtain v' where v': "map_of xs k = Some v'" by blast
  then have "(k, v') \<in> set xs" by (rule map_of_SomeD)
  with assms(2) v' show ?thesis by simp
qed

text \<open>Fault isolation, for any number of stores: a store whose domain no other store
  shares finds under its key what its own task settled on.\<close>

lemma fetchAllStores_own_entry:
  assumes "distinct (map domain stores)" and "i < length stores"
    and "domain (stores ! i) \<noteq> proto_key"
  shows "map_of (fst (fetchAllStores w dr stores)) (domain (stores ! i)) =
           Some (settled_metrics w dr (i, stores ! i))"
proof -
  let ?key = "domain (stores ! i)"
  let ?writes = "completed_writes w dr stores"
  have mem: "(?key, settled_metrics w dr (i, stores ! i)) \<in> set (rev ?writes)"
  proof -
    have "(i, stores ! i) \<in> set (enumerate 0 stores)"
      using assms(2) by (simp add: in_set_enumerate_eq)
    then show ?thesis
      unfolding set_rev set_completed_writes
      by (intro image_eqI [where x = "(i, stores ! i)"]) simp_all
  qed
  have uniq: "v' = settled_metrics w dr (i, stores ! i)" if "(?key, v') \<in> set (rev ?writes)" for v'
  proof -
    from that have "(?key, v') \<in>
        (\<lambda>task. (domain (snd task), settled_metrics w dr task)) ` set (enumerate 0 stores)"
      unfolding set_rev set_completed_writes .
    then obtain task where t: "task \<in> set (enumerate 0 stores)"
      and kv: "(?key, v') = (domain (snd task), settled_metrics w dr task)"
      by (rule imageE)
    from kv have k: "domain (snd task) = ?key" and v: "v' = settled_metrics w dr task"
      by simp_all
    from t have j: "fst task < length stores" "snd task = stores ! fst task"
      by (simp_all add: in_set_enumerate_eq)
    with k have "map domain stores ! fst task = map domain stores ! i"
      using assms(2) by simp
    moreover have "(map domain stores ! fst task = map domain stores ! i) = (fst task = i)"
      using assms(1,2) j(1) by (intro nth_eq_iff_index_eq) simp_all
    ultimately have "fst task = i" by simp
    with j(2) have "task = (i, stores ! i)" by (cases task) simp
    with v show ?thesis by simp
  qed
  from map_of_unique [OF mem uniq] show ?thesis
    using assms(3) by (simp add: map_of_fetchAllStores)
qed

lemma sendToCliq_one_request:
  "fst (sendToCliq cliq inh hook data date) = [cliq_request hook (report_text inh data date)]"
  by (simp add: sendToCliq_def Let_def)

lemma scheduled_try_run:
  assumes "getYesterdayPST (now w) = Inr dr" and "getStoresFromEnv env = Inr stores"
  shows "scheduled_try w env =
     (\<lparr>errors_logged = snd (fetchAllStores w dr stores),
       webhook_requests =
         fst (sendToCliq (cliq_api w) (inherited_text w) (zoho_url env)
               (fst (fetchAllStores w dr stores))
               (toLocaleDateString w (Date_parse (other_dates w) (start dr))))\<rparr>,
      snd (sendToCliq (cliq_api w) (inherited_text w) (zoho_url env)
               (fst (fetchAllStores w dr stores))
               (toLocaleDateString w (Date_parse (other_dates w) (start dr)))))"
  using assms by (simp add: scheduled_try_def Let_def split: prod.splits)

lemma scheduled_returns: "snd (scheduled w env) = Inr ()"
  by (simp add: scheduled_def split: prod.splits sum.splits)

lemma webhook_requests_scheduled:
  "webhook_requests (fst (scheduled w env)) = webhook_requests (fst (scheduled_try w env))"
  by (simp add: scheduled_def split: prod.splits sum.splits)

lemma errors_logged_scheduled:
  "errors_logged (fst (scheduled w env)) =
     errors_logged (fst (scheduled_try w env)) @
     (case snd (scheduled_try w env) of Inl e \<Rightarrow> [e] | Inr u \<Rightarrow> [])"
  by (simp add: scheduled_def split: prod.splits sum.splits)

lemma sendToCliq_not_ok:
  "cliq (cliq_request hook (report_text inh data date)) = Response False statusText responseText json \<Longrightarrow>
     snd (sendToCliq cliq inh hook data date) = Inl (DeliveryFailed statusText)"
  by (simp add: sendToCliq_def Let_def)

subsection \<open>The example worlds\<close>

lemma parseFloat_20: "parseFloat (ascii ''20.00'') = Fin 20"
  by (simp add: parseFloat_def ascii_def split_sign_def trim_start_def is_white_space_def
      is_digit_def digits_value_def scale10_def exponent_part_def)

lemma shopify_total_five: "shopify_total (edges five_orders) = Fin 100"
  by (simp add: shopify_total_def five_orders_def parseFloat_20 replicate_numeral)

lemma getStoresFromEnv_example:
  "getStoresFromEnv example_env =
     Inr [ShopifyStore (ascii ''shop-a'') (ascii ''t1''), ShopifyStore (ascii ''shop-b'') (ascii ''t2'')]"
  by (simp add: getStoresFromEnv_def shopifyStoresFromEnv_def magentoStoresFromEnv_def
      example_env_def unset_env_def ascii_def comma_def trim_def is_white_space_def Let_def upt_rec)

lemma getYesterdayPST_example_world:
  "getYesterdayPST (now example_world) = Inr example_range"
  "getYesterdayPST (now offline_world) = Inr example_range"
  by (simp_all add: example_world_def offline_world_def example_range_def getYesterdayPST_example)

lemma fetch_example_first:
  "fetchStoreOrders example_world dr 0 (ShopifyStore name token) =
     Inl (RequestFailed name (ascii ''Too Many Requests''))"
  by (simp add: fetchStoreOrders_def fetchShopifyOrders_def shopify_pages.simps [of _ _ _ True]
      MAX_PAGES_def fetchShopifyOrdersPage_def example_world_def offline_world_def)

lemma fetch_example_second:
  "fetchStoreOrders example_world dr (Suc i) (ShopifyStore name token) =
     Inr \<lparr>orderCount = 5, totalAmount = Fin 100\<rparr>"
proof -
  have "hasNextPage (pageInfo five_orders) = False" "length (edges five_orders) = 5"
    by (simp_all add: five_orders_def)
  then show ?thesis
    by (simp add: fetchStoreOrders_def fetchShopifyOrders_def shopify_pages.simps [of _ _ _ True]
      shopify_pages.simps [of _ _ _ False]
      MAX_PAGES_def fetchShopifyOrdersPage_def example_world_def offline_world_def
      shopify_total_five)
qed

lemma fetch_offline:
  "fetchStoreOrders offline_world dr i store = Inl TypeError"
proof -
  obtain parts where "encode_entries (searchCriteria (\<lambda>s. None) dr 1) = Some parts"
    using encode_entries_searchCriteria by blast
  then show ?thesis
    by (simp add: fetchStoreOrders_def fetchShopifyOrders_def shopify_pages.simps [of _ _ _ True]
      MAX_PAGES_def fetchShopifyOrdersPage_def offline_world_def fetchMagentoOrders_def
      fetchMagentoOrdersPage_def Let_def)
qed

section \<open>Scheduled entry point: the claims\<close>

text \<open>
  C2 (as stated, refuted). Two configured stores may share a domain
  (\<open>SHOPIFY_DOMAINS = "shop-a,shop-a"\<close>). When the fetch of the first raises and the
  fetch of the second returns 5 orders and 100, the map has the one key \<open>shop-a\<close>: it
  holds the real values and no zeros when the tasks complete in list order, and the zeros
  and not the real values when the second task completes first.
\<close>

theorem fetchAllStores_shared_domain_counterexample:
  "getStoresFromEnv (unset_env\<lparr>SHOPIFY_DOMAINS := Some (ascii ''shop-a,shop-a''),
       SHOPIFY_ACCESS_TOKENS := Some (ascii ''t1,t2'')\<rparr>) =
     Inr [ShopifyStore (ascii ''shop-a'') (ascii ''t1''), ShopifyStore (ascii ''shop-a'') (ascii ''t2'')] \<and>
   fetchStoreOrders example_world example_range 0 (ShopifyStore (ascii ''shop-a'') (ascii ''t1'')) =
     Inl (RequestFailed (ascii ''shop-a'') (ascii ''Too Many Requests'')) \<and>
   fetchStoreOrders example_world example_range 1 (ShopifyStore (ascii ''shop-a'') (ascii ''t2'')) =
     Inr \<lparr>orderCount = 5, totalAmount = Fin 100\<rparr> \<and>
   fst (fetchAllStores example_world example_range
          [ShopifyStore (ascii ''shop-a'') (ascii ''t1''), ShopifyStore (ascii ''shop-a'') (ascii ''t2'')]) =
     [(ascii ''shop-a'', \<lparr>orderCount = 5, totalAmount = Fin 100\<rparr>)] \<and>
   fst (fetchAllStores (example_world\<lparr>completion := [1]\<rparr>) example_range
          [ShopifyStore (ascii ''shop-a'') (ascii ''t1''), ShopifyStore (ascii ''shop-a'') (ascii ''t2'')]) =
     [(ascii ''shop-a'', \<lparr>orderCount = 0, totalAmount = Fin 0\<rparr>)]"
proof -
  have w: "fetchStoreOrders (example_world\<lparr>completion := c\<rparr>) = fetchStoreOrders example_world" for c
    by (simp add: fetchStoreOrders_def fun_eq_iff)
  have c: "completion example_world = []"
    by (simp add: example_world_def offline_world_def)
  have k: "ascii ''shop-a'' \<noteq> proto_key"
    by (simp add: proto_key_def ascii_def)
  have "getStoresFromEnv (unset_env\<lparr>SHOPIFY_DOMAINS := Some (ascii ''shop-a,shop-a''),
       SHOPIFY_ACCESS_TOKENS := Some (ascii ''t1,t2'')\<rparr>) =
     Inr [ShopifyStore (ascii ''shop-a'') (ascii ''t1''), ShopifyStore (ascii ''shop-a'') (ascii ''t2'')]"
    by (simp add: getStoresFromEnv_def shopifyStoresFromEnv_def magentoStoresFromEnv_def
      unset_env_def ascii_def comma_def trim_def is_white_space_def Let_def upt_rec)
  moreover have "fst (fetchAllStores example_world example_range
          [ShopifyStore (ascii ''shop-a'') (ascii ''t1''), ShopifyStore (ascii ''shop-a'') (ascii ''t2'')]) =
     [(ascii ''shop-a'', \<lparr>orderCount = 5, totalAmount = Fin 100\<rparr>)]"
    by (simp add: fst_fetchAllStores completed_writes_def c enumerate_eq_zip upt_rec
        settled_metrics_def fetch_example_first fetch_example_second obj_set_def k zero_metrics_def)
  moreover have "fst (fetchAllStores (example_world\<lparr>completion := [1]\<rparr>) example_range
          [ShopifyStore (ascii ''shop-a'') (ascii ''t1''), ShopifyStore (ascii ''shop-a'') (ascii ''t2'')]) =
     [(ascii ''shop-a'', \<lparr>orderCount = 0, totalAmount = Fin 0\<rparr>)]"
    by (simp add: fst_fetchAllStores completed_writes_def enumerate_eq_zip upt_rec w
        settled_metrics_def fetch_example_first fetch_example_second obj_set_def k zero_metrics_def)
  ultimately show ?thesis
    using fetch_example_first [of example_range] fetch_example_second [of example_range 0]
    by simp
qed

text \<open>
  C2 (amended). When the configuration gives two stores of different domains, neither of
  them \<open>__proto__\<close>, and the fetch of one raises an error while the fetch of the other
  returns 5 orders and 100, then, whatever the order of completion, the metrics map holds
  zeros under the domain of the failing store and the real values under the domain of the
  other, its keys are the two domains, and the run posts exactly one message to the
  webhook, the report of that map, and ends without raising.
\<close>

theorem scheduled_fault_isolation:
  assumes "getYesterdayPST (now w) = Inr dr"
    and "getStoresFromEnv env = Inr stores" and "length stores = 2"
    and "domain (stores ! 0) \<noteq> domain (stores ! 1)"
    and "domain (stores ! 0) \<noteq> proto_key" and "domain (stores ! 1) \<noteq> proto_key"
    and "i < 2" and "j < 2" and "i \<noteq> j"
    and "fetchStoreOrders w dr i (stores ! i) = Inl e"
    and "fetchStoreOrders w dr j (stores ! j) = Inr \<lparr>orderCount = 5, totalAmount = Fin 100\<rparr>"
  shows "map_of (fst (fetchAllStores w dr stores)) (domain (stores ! i)) =
           Some \<lparr>orderCount = 0, totalAmount = Fin 0\<rparr> \<and>
         map_of (fst (fetchAllStores w dr stores)) (domain (stores ! j)) =
           Some \<lparr>orderCount = 5, totalAmount = Fin 100\<rparr> \<and>
         fst ` set (fst (fetchAllStores w dr stores)) = domain ` set stores \<and>
         map body (webhook_requests (fst (scheduled w env))) =
           [MessageBody (report_text (inherited_text w) (fst (fetchAllStores w dr stores))
              (toLocaleDateString w (Date_parse (other_dates w) (start dr))))] \<and>
         snd (scheduled w env) = Inr ()"
proof -
  from assms(3) obtain s0 s1 where stores: "stores = [s0, s1]"
    by (cases stores; cases "tl stores") auto
  have d: "distinct (map domain stores)"
    using assms(4) by (simp add: stores)
  have ij: "i < length stores" "j < length stores"
    using assms(3,7,8) by simp_all
  have np: "domain (stores ! i) \<noteq> proto_key" "domain (stores ! j) \<noteq> proto_key"
    using assms(5-8) by (auto simp: less_Suc_eq numeral_2_eq_2)
  have "map_of (fst (fetchAllStores w dr stores)) (domain (stores ! i)) =
          Some \<lparr>orderCount = 0, totalAmount = Fin 0\<rparr>"
    using fetchAllStores_own_entry [OF d ij(1) np(1), of w dr] assms(10)
    by (simp add: settled_metrics_def zero_metrics_def)
  moreover have "map_of (fst (fetchAllStores w dr stores)) (domain (stores ! j)) =
          Some \<lparr>orderCount = 5, totalAmount = Fin 100\<rparr>"
    using fetchAllStores_own_entry [OF d ij(2) np(2), of w dr] assms(11)
    by (simp add: settled_metrics_def)
  moreover have "fst ` set (fst (fetchAllStores w dr stores)) = domain ` set stores"
    using assms(5,6) by (auto simp: keys_fetchAllStores stores)
  moreover have "map body (webhook_requests (fst (scheduled w env))) =
           [MessageBody (report_text (inherited_text w) (fst (fetchAllStores w dr stores))
              (toLocaleDateString w (Date_parse (other_dates w) (start dr))))]"
    by (simp add: webhook_requests_scheduled scheduled_try_run [OF assms(1,2)]
        sendToCliq_one_request cliq_request_def)
  ultimately show ?thesis
    by (simp add: scheduled_returns)
qed

theorem scheduled_fault_isolation_witness:
  "map_of (fst (fetchAllStores example_world example_range
       [ShopifyStore (ascii ''shop-a'') (ascii ''t1''), ShopifyStore (ascii ''shop-b'') (ascii ''t2'')]))
     (ascii ''shop-a'') = Some \<lparr>orderCount = 0, totalAmount = Fin 0\<rparr> \<and>
   map_of (fst (fetchAllStores example_world example_range
       [ShopifyStore (ascii ''shop-a'') (ascii ''t1''), ShopifyStore (ascii ''shop-b'') (ascii ''t2'')]))
     (ascii ''shop-b'') = Some \<lparr>orderCount = 5, totalAmount = Fin 100\<rparr> \<and>
   length (webhook_requests (fst (scheduled example_world example_env))) = 1"
proof -
  let ?stores = "[ShopifyStore (ascii ''shop-a'') (ascii ''t1''),
                  ShopifyStore (ascii ''shop-b'') (ascii ''t2'')]"
  have ne: "domain (?stores ! 0) \<noteq> domain (?stores ! 1)"
    "domain (?stores ! 0) \<noteq> proto_key" "domain (?stores ! 1) \<noteq> proto_key"
    by (simp_all add: ascii_def proto_key_def)
  have f0: "fetchStoreOrders example_world example_range 0 (?stores ! 0) =
              Inl (RequestFailed (ascii ''shop-a'') (ascii ''Too Many Requests''))"
    by (simp add: fetch_example_first)
  have f1: "fetchStoreOrders example_world example_range 1 (?stores ! 1) =
              Inr \<lparr>orderCount = 5, totalAmount = Fin 100\<rparr>"
    using fetch_example_second [of example_range 0] by simp
  note run = scheduled_fault_isolation [OF getYesterdayPST_example_world(1)
      getStoresFromEnv_example _ ne _ _ _ f0 f1]
  have "map body (webhook_requests (fst (scheduled example_world example_env))) =
          [MessageBody (report_text (inherited_text example_world)
             (fst (fetchAllStores example_world example_range ?stores))
             (toLocaleDateString example_world
                (Date_parse (other_dates example_world) (start example_range))))]"
    using run by simp
  then have "length (map body (webhook_requests (fst (scheduled example_world example_env)))) =
               length [0::nat]"
    by (simp only: list.size)
  then have "length (webhook_requests (fst (scheduled example_world example_env))) = 1"
    by simp
  then show ?thesis
    using run by simp
qed

text \<open>
  C10 (as stated, refuted). A store whose configured domain is \<open>__proto__\<close> gets no key:
  the assignment replaces the prototype of \<open>storeMetrics\<close>, and the map stays empty.
\<close>

theorem fetchAllStores_proto_counterexample:
  "getStoresFromEnv (unset_env\<lparr>SHOPIFY_DOMAINS := Some (ascii ''__proto__''),
       SHOPIFY_ACCESS_TOKENS := Some (ascii ''tok'')\<rparr>) =
     Inr [ShopifyStore (ascii ''__proto__'') (ascii ''tok'')] \<and>
   fst (fetchAllStores offline_world example_range
          [ShopifyStore (ascii ''__proto__'') (ascii ''tok'')]) = [] \<and>
   domain ` set [ShopifyStore (ascii ''__proto__'') (ascii ''tok'')] = {ascii ''__proto__''}"
  by (simp add: fst_fetchAllStores completed_writes_def enumerate_eq_zip obj_set_def proto_key_def
      offline_world_def getStoresFromEnv_def shopifyStoresFromEnv_def magentoStoresFromEnv_def
      unset_env_def ascii_def comma_def trim_def is_white_space_def Let_def upt_rec)

text \<open>
  C10 (amended). The metrics map is keyed by store domain alone: for every store list,
  every world and every order of completion, its keys are exactly the distinct domain
  strings other than \<open>__proto__\<close>, each once, in the map and in the entries that the
  report prints. The value under a key is the one written by the last task to complete
  among the stores of that domain, so stores that share a domain share one entry.
\<close>

theorem fetchAllStores_keyed_by_domain:
  "fst ` set (fst (fetchAllStores w dr stores)) = domain ` set stores - {proto_key} \<and>
   distinct (map fst (fst (fetchAllStores w dr stores))) \<and>
   fst ` set (Object_entries (fst (fetchAllStores w dr stores))) =
     domain ` set stores - {proto_key} \<and>
   distinct (map fst (Object_entries (fst (fetchAllStores w dr stores)))) \<and>
   (\<forall>key. key \<noteq> proto_key \<longrightarrow>
      map_of (fst (fetchAllStores w dr stores)) key =
      map_of (rev (completed_writes w dr stores)) key)"
  by (simp add: set_Object_entries keys_fetchAllStores distinct_keys_fetchAllStores
      distinct_Object_entries map_of_fetchAllStores)


theorem fetchAllStores_keyed_by_domain_witness:
  "fst ` set (fst (fetchAllStores example_world example_range
      [ShopifyStore (ascii ''shop-a'') (ascii ''t1''), ShopifyStore (ascii ''shop-a'') (ascii ''t2''),
       ShopifyStore (ascii ''shop-b'') (ascii ''t3'')])) = {ascii ''shop-a'', ascii ''shop-b''} \<and>
   distinct (map fst (fst (fetchAllStores example_world example_range
      [ShopifyStore (ascii ''shop-a'') (ascii ''t1''), ShopifyStore (ascii ''shop-a'') (ascii ''t2''),
       ShopifyStore (ascii ''shop-b'') (ascii ''t3'')]))) \<and>
   map_of (fst (fetchAllStores example_world example_range
      [ShopifyStore (ascii ''shop-a'') (ascii ''t1''), ShopifyStore (ascii ''shop-a'') (ascii ''t2''),
       ShopifyStore (ascii ''shop-b'') (ascii ''t3'')])) (ascii ''shop-a'') =
     Some \<lparr>orderCount = 5, totalAmount = Fin 100\<rparr>"
proof -
  let ?stores = "[ShopifyStore (ascii ''shop-a'') (ascii ''t1''),
       ShopifyStore (ascii ''shop-a'') (ascii ''t2''), ShopifyStore (ascii ''shop-b'') (ascii ''t3'')]"
  have k: "ascii ''shop-a'' \<noteq> proto_key" "ascii ''shop-b'' \<noteq> proto_key"
    "ascii ''shop-b'' \<noteq> ascii ''shop-a''"
    by (simp_all add: proto_key_def ascii_def)
  have c: "completion example_world = []"
    by (simp add: example_world_def offline_world_def)
  have writes: "rev (completed_writes example_world example_range ?stores) =
      [(ascii ''shop-b'', \<lparr>orderCount = 5, totalAmount = Fin 100\<rparr>),
       (ascii ''shop-a'', \<lparr>orderCount = 5, totalAmount = Fin 100\<rparr>),
       (ascii ''shop-a'', zero_metrics)]"
    by (simp add: completed_writes_def c enumerate_eq_zip upt_rec settled_metrics_def
        fetch_example_first fetch_example_second)
  from fetchAllStores_keyed_by_domain [of example_world example_range ?stores] k writes
  show ?thesis by auto
qed

text \<open>
  C4. Whatever the world and the environment, \<open>scheduled\<close> ends without raising: an
  error that its \<open>try\<close> block raises, at any stage, is caught and logged. The send
  operation fails with "Failed to send message to Cliq: ..." when the webhook answers with
  a status that is not a success; in a run that reaches the send, that error is the one
  logged last, after exactly one request to the webhook, and the run still ends normally.
\<close>

theorem scheduled_never_raises:
  "snd (scheduled w env) = Inr () \<and>
   (\<forall>e. snd (scheduled_try w env) = Inl e \<longrightarrow>
      errors_logged (fst (scheduled w env)) = errors_logged (fst (scheduled_try w env)) @ [e]) \<and>
   ((\<forall>req. cliq req = Response False statusText responseText json) \<longrightarrow>
      snd (sendToCliq cliq inherited hook storeData date) = Inl (DeliveryFailed statusText)) \<and>
   (getYesterdayPST (now w) = Inr dr \<and> getStoresFromEnv env = Inr stores \<and>
    (\<forall>req. cliq_api w req = Response False statusText responseText json) \<longrightarrow>
      snd (scheduled_try w env) = Inl (DeliveryFailed statusText) \<and>
      length (webhook_requests (fst (scheduled w env))) = 1 \<and>
      last (errors_logged (fst (scheduled w env))) = DeliveryFailed statusText \<and>
      snd (scheduled w env) = Inr ())"
proof (intro conjI allI impI)
  show "snd (scheduled w env) = Inr ()"
    by (rule scheduled_returns)
next
  fix e
  assume "snd (scheduled_try w env) = Inl e"
  then show "errors_logged (fst (scheduled w env)) =
               errors_logged (fst (scheduled_try w env)) @ [e]"
    by (simp add: errors_logged_scheduled)
next
  assume "\<forall>req. cliq req = Response False statusText responseText json"
  then show "snd (sendToCliq cliq inherited hook storeData date) = Inl (DeliveryFailed statusText)"
    by (simp add: sendToCliq_not_ok)
next
  assume a: "getYesterdayPST (now w) = Inr dr \<and> getStoresFromEnv env = Inr stores \<and>
    (\<forall>req. cliq_api w req = Response False statusText responseText json)"
  then have run: "getYesterdayPST (now w) = Inr dr" "getStoresFromEnv env = Inr stores"
    and cliq: "\<And>req. cliq_api w req = Response False statusText responseText json"
    by simp_all
  show failed: "snd (scheduled_try w env) = Inl (DeliveryFailed statusText)"
    by (simp add: scheduled_try_run [OF run] sendToCliq_not_ok [OF cliq])
  show "length (webhook_requests (fst (scheduled w env))) = 1"
    by (simp add: webhook_requests_scheduled scheduled_try_run [OF run] sendToCliq_one_request)
  show "last (errors_logged (fst (scheduled w env))) = DeliveryFailed statusText"
    by (simp add: errors_logged_scheduled failed)
  show "snd (scheduled w env) = Inr ()"
    by (rule scheduled_returns)
qed

theorem scheduled_never_raises_witness:
  "snd (scheduled_try
          (offline_world\<lparr>cliq_api := (\<lambda>req. Response False (ascii ''Internal Server Error'') [] None)\<rparr>)
          example_env) = Inl (DeliveryFailed (ascii ''Internal Server Error'')) \<and>
   length (webhook_requests (fst (scheduled
          (offline_world\<lparr>cliq_api := (\<lambda>req. Response False (ascii ''Internal Server Error'') [] None)\<rparr>)
          example_env))) = 1 \<and>
   last (errors_logged (fst (scheduled
          (offline_world\<lparr>cliq_api := (\<lambda>req. Response False (ascii ''Internal Server Error'') [] None)\<rparr>)
          example_env))) = DeliveryFailed (ascii ''Internal Server Error'') \<and>
   snd (scheduled
          (offline_world\<lparr>cliq_api := (\<lambda>req. Response False (ascii ''Internal Server Error'') [] None)\<rparr>)
          example_env) = Inr () \<and>
   snd (scheduled_try offline_world unset_env) = Inl TypeError \<and>
   errors_logged (fst (scheduled offline_world unset_env)) = [TypeError]"
proof -
  let ?w = "offline_world\<lparr>cliq_api := (\<lambda>req. Response False (ascii ''Internal Server Error'') [] None)\<rparr>"
  have n: "getYesterdayPST (now ?w) = Inr example_range"
    using getYesterdayPST_example_world(2) by simp
  have c: "\<forall>req. cliq_api ?w req = Response False (ascii ''Internal Server Error'') [] None"
    by simp
  have s: "getStoresFromEnv unset_env = Inr []"
    by (simp add: getStoresFromEnv_def shopifyStoresFromEnv_def magentoStoresFromEnv_def
        unset_env_def)
  have q: "cliq_api offline_world = (\<lambda>req. FetchFailed TypeError)"
    by (simp add: offline_world_def)
  have t: "snd (scheduled_try offline_world unset_env) = Inl TypeError"
    unfolding scheduled_try_run [OF getYesterdayPST_example_world(2) s]
    by (simp add: sendToCliq_def Let_def q)
  have l: "errors_logged (fst (scheduled_try offline_world unset_env)) = []"
    unfolding scheduled_try_run [OF getYesterdayPST_example_world(2) s]
    by (simp add: fetchAllStores_def enumerate_eq_zip)
  from scheduled_never_raises [of ?w example_env "\<lambda>req. FetchFailed TypeError"
      "ascii ''Internal Server Error''" "[]" None "\<lambda>k. []" "[]" "[]" "[]" example_range
      "[ShopifyStore (ascii ''shop-a'') (ascii ''t1''), ShopifyStore (ascii ''shop-b'') (ascii ''t2'')]"]
    n c getStoresFromEnv_example
  have "snd (scheduled_try ?w example_env) = Inl (DeliveryFailed (ascii ''Internal Server Error'')) \<and>
      length (webhook_requests (fst (scheduled ?w example_env))) = 1 \<and>
      last (errors_logged (fst (scheduled ?w example_env))) = DeliveryFailed (ascii ''Internal Server Error'') \<and>
      snd (scheduled ?w example_env) = Inr ()"
    by blast
  moreover from scheduled_never_raises [of offline_world unset_env "\<lambda>req. FetchFailed TypeError"
      "[]" "[]" None "\<lambda>k. []" "[]" "[]" "[]" example_range "[]"] t l
  have "errors_logged (fst (scheduled offline_world unset_env)) = [TypeError]"
    by simp
  ultimately show ?thesis using t by blast
qed


end
